theory Spec2Isabelle
  imports Main "HOL-Library.AList" "HOL-Library.Product_Lexorder"
begin

section \<open>Shared vocabulary\<close>

text \<open>
  JavaScript numbers that the aggregates use as quantities, stock levels and versions are
  modelled as integers; \<open>Date\<close> values and ISO timestamps are instants on a clock, a natural
  number. Every \<open>new Date()\<close> of a command is the parameter \<open>now\<close> of its model. The random
  \<open>eventId\<close> of an event plays no part in any function below and is left out.
\<close>

type_synonym date = nat

datatype error =
    DomainError string
  | ConcurrencyConflict int int
  | StorageFailure
  | DatabaseError string

text \<open>packages/shared/src/events/base/Event.ts: the fields of class \<open>Event\<close>;
  \<open>timestamp\<close> and \<open>metaVersion\<close> are \<open>metadata.timestamp\<close> and \<open>metadata.version\<close>.\<close>

record 'd event =
  eventType :: string
  aggregateId :: string
  data :: 'd
  timestamp :: date
  metaVersion :: int

definition Event :: "string \<Rightarrow> string \<Rightarrow> 'd \<Rightarrow> date \<Rightarrow> 'd event" where
  "Event ty aid d now =
     \<lparr>eventType = ty, aggregateId = aid, data = d, timestamp = now, metaVersion = 1\<rparr>"


section \<open>Event store (PostgreSQLEventStore)\<close>

text \<open>
  A row of table \<open>events\<close>. \<open>se_id\<close> is the primary key the database draws
  (\<open>gen_random_uuid()\<close>), a UUID, kept as the 128-bit number it stands for;
  \<open>se_timestamp\<close> is the column default \<open>NOW()\<close>. The table is the list of its rows in the
  order of insertion.
\<close>

record 'd StoredEvent =
  se_id :: nat
  se_aggregateId :: string
  se_eventType :: string
  se_eventData :: 'd
  se_metadata :: "date \<times> int"
  se_version :: int
  se_timestamp :: date

type_synonym 'd events_table = "'d StoredEvent list"

text \<open>
  What the database contributes to one call of \<open>saveEvents\<close>: the time of the transaction,
  the key drawn for the i-th inserted row, and whether the i-th \<open>INSERT\<close> raises
  (a connection or storage failure).
\<close>

record pg =
  pg_now :: date
  pg_uuid :: "nat \<Rightarrow> nat"
  pg_insert_fails :: "nat \<Rightarrow> bool"

text \<open>\<open>SELECT COALESCE(MAX(version), 0) FROM events WHERE aggregate_id = $1\<close>\<close>

definition currentVersion :: "string \<Rightarrow> 'd events_table \<Rightarrow> int" where
  "currentVersion aid tbl =
     (case map se_version (filter (\<lambda>r. se_aggregateId r = aid) tbl) of
        [] \<Rightarrow> 0
      | v # vs \<Rightarrow> fold max vs v)"

definition insertRow :: "pg \<Rightarrow> string \<Rightarrow> 'd event \<Rightarrow> int \<Rightarrow> nat \<Rightarrow> 'd StoredEvent" where
  "insertRow db aid ev ver i =
     \<lparr>se_id = pg_uuid db i, se_aggregateId = aid, se_eventType = eventType ev,
      se_eventData = data ev, se_metadata = (timestamp ev, metaVersion ev),
      se_version = ver, se_timestamp = pg_now db\<rparr>"

text \<open>The \<open>for\<close> loop of \<open>saveEvents\<close>, from index \<open>i\<close> on, inside the open transaction
  whose view of the table is \<open>tx\<close>: event \<open>i\<close> is inserted with version
  \<open>expectedVersion + i + 1\<close>.\<close>

fun insertEvents ::
  "pg \<Rightarrow> string \<Rightarrow> int \<Rightarrow> nat \<Rightarrow> 'd event list \<Rightarrow> 'd events_table \<Rightarrow> error + 'd events_table"
where
  "insertEvents db aid expectedVersion i [] tx = Inr tx"
| "insertEvents db aid expectedVersion i (ev # evs) tx =
     (if pg_insert_fails db i then Inl StorageFailure
      else insertEvents db aid expectedVersion (Suc i) evs
             (tx @ [insertRow db aid ev (expectedVersion + int i + 1) i]))"

text \<open>
  \<open>saveEvents\<close>: \<open>BEGIN\<close>, the version check, the inserts, \<open>COMMIT\<close>; any exception runs
  \<open>ROLLBACK\<close> and is thrown again. The result is the outcome of the call together with the
  table as it is afterwards: the transaction's view after \<open>COMMIT\<close>, the table as it was after
  \<open>ROLLBACK\<close>. One call runs at a time: the transaction sees the table as the call found it.
\<close>

definition saveEvents ::
  "pg \<Rightarrow> string \<Rightarrow> 'd event list \<Rightarrow> int \<Rightarrow> 'd events_table \<Rightarrow> (error + unit) \<times> 'd events_table"
where
  "saveEvents db aid evs expectedVersion tbl =
     (let cur = currentVersion aid tbl in
      if cur \<noteq> expectedVersion then (Inl (ConcurrencyConflict expectedVersion cur), tbl)
      else (case insertEvents db aid expectedVersion 0 evs tbl of
              Inl err \<Rightarrow> (Inl err, tbl)
            | Inr tx \<Rightarrow> (Inr (), tx)))"

text \<open>\<open>getEvents\<close>: \<open>WHERE aggregate_id = $1 AND version > $2 ORDER BY version ASC\<close>\<close>

definition getEvents :: "string \<Rightarrow> int \<Rightarrow> 'd events_table \<Rightarrow> 'd StoredEvent list" where
  "getEvents aid fromVersion tbl =
     sort_key se_version
       (filter (\<lambda>r. se_aggregateId r = aid \<and> fromVersion < se_version r) tbl)"

text \<open>
  The cursor of the two feeds. \<open>fromPosition\<close> is a JavaScript number (0 by default) and
  is bound to \<open>$1\<close> of \<open>WHERE id > $1\<close>, where \<open>id\<close> is the UUID column. The driver
  sends a number as its text, for an integer below \<open>10^21\<close> in magnitude its decimal
  notation, and PostgreSQL, which takes the parameter for a uuid, parses that text: a uuid
  is written with 32 hexadecimal digits, braces around them and hyphens between groups of
  them being optional. \<open>parseUuid\<close> drops a hyphen wherever it stands, so it refuses no
  text that PostgreSQL accepts. A text that is refused makes the query, and with it the
  call, fail.
\<close>

fun decimal :: "nat \<Rightarrow> string" where
  "decimal n =
     (if n < 10 then [char_of (48 + n)]
      else decimal (n div 10) @ [char_of (48 + n mod 10)])"

declare decimal.simps [simp del]

definition numberText :: "int \<Rightarrow> string" where
  "numberText n = (if n < 0 then CHR ''-'' # decimal (nat (- n)) else decimal (nat n))"

definition stripBraces :: "string \<Rightarrow> string" where
  "stripBraces s =
     (if s \<noteq> [] \<and> hd s = CHR ''{'' \<and> last s = CHR ''}'' then butlast (tl s) else s)"

definition hexDigit :: "char \<Rightarrow> nat option" where
  "hexDigit c =
     (let n = (of_char c :: nat) in
      if 48 \<le> n \<and> n \<le> 57 then Some (n - 48)
      else if 97 \<le> n \<and> n \<le> 102 then Some (n - 87)
      else if 65 \<le> n \<and> n \<le> 70 then Some (n - 55)
      else None)"

fun hexValue :: "string \<Rightarrow> nat \<Rightarrow> nat option" where
  "hexValue [] acc = Some acc"
| "hexValue (c # cs) acc =
     (case hexDigit c of None \<Rightarrow> None | Some d \<Rightarrow> hexValue cs (16 * acc + d))"

definition parseUuid :: "string \<Rightarrow> nat option" where
  "parseUuid s =
     (let t = filter (\<lambda>c. c \<noteq> CHR ''-'') (stripBraces s) in
      if length t = 32 then hexValue t 0 else None)"

definition bindUuid :: "int \<Rightarrow> error + nat" where
  "bindUuid n =
     (case parseUuid (numberText n) of
        None \<Rightarrow> Inl (DatabaseError ''invalid input syntax for type uuid'')
      | Some u \<Rightarrow> Inr u)"

text \<open>\<open>getAllEvents\<close>: \<open>WHERE id > $1 ORDER BY timestamp ASC, version ASC LIMIT $2\<close>.
  Rows that agree on both sort keys keep their order of insertion here; SQL leaves their
  order open.\<close>

definition getAllEvents ::
  "int \<Rightarrow> nat \<Rightarrow> 'd events_table \<Rightarrow> error + 'd StoredEvent list"
where
  "getAllEvents fromPosition limit tbl =
     (case bindUuid fromPosition of
        Inl err \<Rightarrow> Inl err
      | Inr position \<Rightarrow>
          Inr (take limit
                 (sort_key (\<lambda>r. (se_timestamp r, se_version r))
                    (filter (\<lambda>r. position < se_id r) tbl))))"

text \<open>\<open>getEventsByType\<close>:
  \<open>WHERE event_type = $1 AND id > $2 ORDER BY timestamp ASC, version ASC LIMIT $3\<close>\<close>

definition getEventsByType ::
  "string \<Rightarrow> int \<Rightarrow> nat \<Rightarrow> 'd events_table \<Rightarrow> error + 'd StoredEvent list"
where
  "getEventsByType ty fromPosition limit tbl =
     (case bindUuid fromPosition of
        Inl err \<Rightarrow> Inl err
      | Inr position \<Rightarrow>
          Inr (take limit
                 (sort_key (\<lambda>r. (se_timestamp r, se_version r))
                    (filter (\<lambda>r. se_eventType r = ty \<and> position < se_id r) tbl))))"


section \<open>Inventory aggregate\<close>

record StockReservation =
  res_id :: string
  res_orderId :: string
  res_quantity :: int
  res_reservedAt :: date
  res_expiresAt :: date
  res_isAllocated :: bool

datatype changeType = Increment | Decrement | SetTo

text \<open>
  The payloads of the inventory event classes. Each class passes its own name to the
  constructor of \<open>Event\<close> as \<open>eventType\<close> and fixes the shape of \<open>data\<close>, so the
  \<open>switch (event.eventType)\<close> of \<open>apply\<close> is the case distinction on the constructor of
  the payload. \<open>OtherInventoryData\<close> is the payload of an event whose type the switch does
  not list.
\<close>

datatype InventoryData =
    InventoryItemCreatedData string string int int int
  | StockUpdatedData string int int string changeType
  | StockReservedData string string int date date
  | StockReleasedData string string int date string
  | StockAllocatedData string string int date
  | LowStockAlertData string int int date
  | OutOfStockAlertData string date
  | InventoryThresholdUpdatedData string int int date
  | OtherInventoryData

definition InventoryItemCreated ::
  "string \<Rightarrow> string \<Rightarrow> string \<Rightarrow> int \<Rightarrow> int \<Rightarrow> int \<Rightarrow> date \<Rightarrow> InventoryData event" where
  "InventoryItemCreated aid productId sku initialStock lowStockThreshold reservedStock now =
     Event ''InventoryItemCreated'' aid
       (InventoryItemCreatedData productId sku initialStock lowStockThreshold reservedStock) now"

definition StockUpdated ::
  "string \<Rightarrow> string \<Rightarrow> int \<Rightarrow> int \<Rightarrow> string \<Rightarrow> changeType \<Rightarrow> date \<Rightarrow> InventoryData event" where
  "StockUpdated aid productId oldStock newStock changeReason ct now =
     Event ''StockUpdated'' aid (StockUpdatedData productId oldStock newStock changeReason ct) now"

definition StockReserved ::
  "string \<Rightarrow> string \<Rightarrow> string \<Rightarrow> int \<Rightarrow> date \<Rightarrow> date \<Rightarrow> date \<Rightarrow> InventoryData event" where
  "StockReserved aid productId orderId quantity reservedAt expiresAt now =
     Event ''StockReserved'' aid
       (StockReservedData productId orderId quantity reservedAt expiresAt) now"

definition StockReleased ::
  "string \<Rightarrow> string \<Rightarrow> string \<Rightarrow> int \<Rightarrow> date \<Rightarrow> string \<Rightarrow> date \<Rightarrow> InventoryData event" where
  "StockReleased aid productId orderId quantity releasedAt reason now =
     Event ''StockReleased'' aid
       (StockReleasedData productId orderId quantity releasedAt reason) now"

definition StockAllocated ::
  "string \<Rightarrow> string \<Rightarrow> string \<Rightarrow> int \<Rightarrow> date \<Rightarrow> date \<Rightarrow> InventoryData event" where
  "StockAllocated aid productId orderId quantity allocatedAt now =
     Event ''StockAllocated'' aid (StockAllocatedData productId orderId quantity allocatedAt) now"

definition LowStockAlert ::
  "string \<Rightarrow> string \<Rightarrow> int \<Rightarrow> int \<Rightarrow> date \<Rightarrow> date \<Rightarrow> InventoryData event" where
  "LowStockAlert aid productId currentStock threshold alertedAt now =
     Event ''LowStockAlert'' aid (LowStockAlertData productId currentStock threshold alertedAt) now"

definition OutOfStockAlert :: "string \<Rightarrow> string \<Rightarrow> date \<Rightarrow> date \<Rightarrow> InventoryData event" where
  "OutOfStockAlert aid productId alertedAt now =
     Event ''OutOfStockAlert'' aid (OutOfStockAlertData productId alertedAt) now"

definition InventoryThresholdUpdated ::
  "string \<Rightarrow> string \<Rightarrow> int \<Rightarrow> int \<Rightarrow> date \<Rightarrow> date \<Rightarrow> InventoryData event" where
  "InventoryThresholdUpdated aid productId oldThreshold newThreshold updatedAt now =
     Event ''InventoryThresholdUpdated'' aid
       (InventoryThresholdUpdatedData productId oldThreshold newThreshold updatedAt) now"

text \<open>The private fields of class \<open>Inventory\<close>. \<open>reservations\<close> is a JavaScript \<open>Map\<close>:
  an association list in insertion order, in which \<open>set\<close> on a present key replaces the
  value in place (\<open>AList.update\<close>) and \<open>delete\<close> removes the entry (\<open>AList.delete\<close>).\<close>

record Inventory =
  inv_id :: string
  inv_productId :: string
  inv_sku :: string
  inv_currentStock :: int
  inv_reservedStock :: int
  inv_lowStockThreshold :: int
  inv_reservations :: "(string \<times> StockReservation) list"
  inv_createdAt :: date
  inv_updatedAt :: date
  inv_version :: int
  inv_uncommittedEvents :: "InventoryData event list"

definition Inventory_new :: "string \<Rightarrow> date \<Rightarrow> Inventory" where
  "Inventory_new ident now =
     \<lparr>inv_id = ident, inv_productId = [], inv_sku = [], inv_currentStock = 0,
      inv_reservedStock = 0, inv_lowStockThreshold = 10, inv_reservations = [],
      inv_createdAt = now, inv_updatedAt = now, inv_version = 0,
      inv_uncommittedEvents = []\<rparr>"

text \<open>The key \<open>`${this.id}-${orderId}`\<close> of a reservation.\<close>

definition reservationId :: "Inventory \<Rightarrow> string \<Rightarrow> string" where
  "reservationId s orderId = inv_id s @ ''-'' @ orderId"

definition applyInventoryItemCreated ::
  "string \<Rightarrow> string \<Rightarrow> int \<Rightarrow> int \<Rightarrow> date \<Rightarrow> Inventory \<Rightarrow> Inventory" where
  "applyInventoryItemCreated productId sku initialStock lowStockThreshold ts s =
     s\<lparr>inv_productId := productId, inv_sku := sku, inv_currentStock := initialStock,
       inv_lowStockThreshold := lowStockThreshold, inv_createdAt := ts, inv_updatedAt := ts\<rparr>"

definition applyStockUpdated :: "int \<Rightarrow> date \<Rightarrow> Inventory \<Rightarrow> Inventory" where
  "applyStockUpdated newStock ts s = s\<lparr>inv_currentStock := newStock, inv_updatedAt := ts\<rparr>"

definition applyStockReserved ::
  "string \<Rightarrow> int \<Rightarrow> date \<Rightarrow> date \<Rightarrow> date \<Rightarrow> Inventory \<Rightarrow> Inventory" where
  "applyStockReserved orderId quantity reservedAt expiresAt ts s =
     (let reservation =
            \<lparr>res_id = reservationId s orderId, res_orderId = orderId, res_quantity = quantity,
             res_reservedAt = reservedAt, res_expiresAt = expiresAt, res_isAllocated = False\<rparr>
      in s\<lparr>inv_reservations := AList.update (res_id reservation) reservation (inv_reservations s),
           inv_reservedStock := inv_reservedStock s + quantity,
           inv_updatedAt := ts\<rparr>)"

definition applyStockReleased :: "string \<Rightarrow> date \<Rightarrow> Inventory \<Rightarrow> Inventory" where
  "applyStockReleased orderId ts s =
     (let rid = reservationId s orderId in
      case map_of (inv_reservations s) rid of
        Some reservation \<Rightarrow>
          s\<lparr>inv_reservedStock := inv_reservedStock s - res_quantity reservation,
            inv_reservations := AList.delete rid (inv_reservations s),
            inv_updatedAt := ts\<rparr>
      | None \<Rightarrow> s\<lparr>inv_updatedAt := ts\<rparr>)"

definition applyStockAllocated :: "string \<Rightarrow> int \<Rightarrow> date \<Rightarrow> Inventory \<Rightarrow> Inventory" where
  "applyStockAllocated orderId quantity ts s =
     (let rid = reservationId s orderId in
      case map_of (inv_reservations s) rid of
        Some reservation \<Rightarrow>
          s\<lparr>inv_reservations :=
              AList.update rid (reservation\<lparr>res_isAllocated := True\<rparr>) (inv_reservations s),
            inv_currentStock := inv_currentStock s - quantity,
            inv_reservedStock := inv_reservedStock s - quantity,
            inv_updatedAt := ts\<rparr>
      | None \<Rightarrow> s\<lparr>inv_updatedAt := ts\<rparr>)"

definition applyLowStockAlert :: "date \<Rightarrow> Inventory \<Rightarrow> Inventory" where
  "applyLowStockAlert ts s = s\<lparr>inv_updatedAt := ts\<rparr>"

definition applyOutOfStockAlert :: "date \<Rightarrow> Inventory \<Rightarrow> Inventory" where
  "applyOutOfStockAlert ts s = s\<lparr>inv_updatedAt := ts\<rparr>"

definition applyInventoryThresholdUpdated :: "int \<Rightarrow> date \<Rightarrow> Inventory \<Rightarrow> Inventory" where
  "applyInventoryThresholdUpdated newThreshold ts s =
     s\<lparr>inv_lowStockThreshold := newThreshold, inv_updatedAt := ts\<rparr>"

definition Inventory_apply :: "InventoryData event \<Rightarrow> Inventory \<Rightarrow> Inventory" where
  "Inventory_apply e s =
     (case data e of
        InventoryItemCreatedData productId sku initialStock lowStockThreshold reservedStock \<Rightarrow>
          applyInventoryItemCreated productId sku initialStock lowStockThreshold (timestamp e) s
      | StockUpdatedData productId oldStock newStock changeReason ct \<Rightarrow>
          applyStockUpdated newStock (timestamp e) s
      | StockReservedData productId orderId quantity reservedAt expiresAt \<Rightarrow>
          applyStockReserved orderId quantity reservedAt expiresAt (timestamp e) s
      | StockReleasedData productId orderId quantity releasedAt reason \<Rightarrow>
          applyStockReleased orderId (timestamp e) s
      | StockAllocatedData productId orderId quantity allocatedAt \<Rightarrow>
          applyStockAllocated orderId quantity (timestamp e) s
      | LowStockAlertData productId currentStock threshold alertedAt \<Rightarrow>
          applyLowStockAlert (timestamp e) s
      | OutOfStockAlertData productId alertedAt \<Rightarrow>
          applyOutOfStockAlert (timestamp e) s
      | InventoryThresholdUpdatedData productId oldThreshold newThreshold updatedAt \<Rightarrow>
          applyInventoryThresholdUpdated newThreshold (timestamp e) s
      | OtherInventoryData \<Rightarrow> s)"

definition Inventory_applyEvent :: "InventoryData event \<Rightarrow> Inventory \<Rightarrow> Inventory" where
  "Inventory_applyEvent e s =
     (let s' = Inventory_apply e s in
      s'\<lparr>inv_version := inv_version s' + 1,
         inv_uncommittedEvents := inv_uncommittedEvents s' @ [e]\<rparr>)"

definition Inventory_create ::
  "string \<Rightarrow> string \<Rightarrow> string \<Rightarrow> int \<Rightarrow> int \<Rightarrow> date \<Rightarrow> Inventory" where
  "Inventory_create ident productId sku initialStock lowStockThreshold now =
     Inventory_applyEvent
       (InventoryItemCreated ident productId sku initialStock lowStockThreshold 0 now)
       (Inventory_new ident now)"

text \<open>\<open>events.forEach(event => inventory.applyEvent(event))\<close>\<close>

definition Inventory_fromEvents :: "string \<Rightarrow> InventoryData event list \<Rightarrow> date \<Rightarrow> Inventory" where
  "Inventory_fromEvents ident evs now = fold Inventory_applyEvent evs (Inventory_new ident now)"

definition getAvailableStock :: "Inventory \<Rightarrow> int" where
  "getAvailableStock s = max 0 (inv_currentStock s - inv_reservedStock s)"

definition getReservations :: "Inventory \<Rightarrow> StockReservation list" where
  "getReservations s = map snd (inv_reservations s)"

definition getReservation :: "Inventory \<Rightarrow> string \<Rightarrow> StockReservation option" where
  "getReservation s orderId = map_of (inv_reservations s) (reservationId s orderId)"

definition Inventory_getUncommittedEvents :: "Inventory \<Rightarrow> InventoryData event list" where
  "Inventory_getUncommittedEvents s = inv_uncommittedEvents s"

definition Inventory_markEventsAsCommitted :: "Inventory \<Rightarrow> Inventory" where
  "Inventory_markEventsAsCommitted s = s\<lparr>inv_uncommittedEvents := []\<rparr>"

definition checkStockAlerts :: "date \<Rightarrow> Inventory \<Rightarrow> Inventory" where
  "checkStockAlerts now s =
     (let availableStock = getAvailableStock s in
      if availableStock = 0 then
        Inventory_applyEvent (OutOfStockAlert (inv_id s) (inv_productId s) now now) s
      else if availableStock \<le> inv_lowStockThreshold s then
        Inventory_applyEvent
          (LowStockAlert (inv_id s) (inv_productId s) availableStock (inv_lowStockThreshold s)
             now now) s
      else s)"

text \<open>\<open>updateStock\<close> has no \<open>throw\<close>: it always returns.\<close>

definition Inventory_updateStock ::
  "int \<Rightarrow> string \<Rightarrow> changeType \<Rightarrow> date \<Rightarrow> Inventory \<Rightarrow> Inventory" where
  "Inventory_updateStock newStock changeReason ct now s =
     (let oldStock = inv_currentStock s;
          newStockValue =
            (case ct of
               Increment \<Rightarrow> inv_currentStock s + newStock
             | Decrement \<Rightarrow> max 0 (inv_currentStock s - newStock)
             | SetTo \<Rightarrow> max 0 newStock)
      in checkStockAlerts now
           (Inventory_applyEvent
              (StockUpdated (inv_id s) (inv_productId s) oldStock newStockValue changeReason ct now)
              s))"

definition reserveStock :: "string \<Rightarrow> int \<Rightarrow> date \<Rightarrow> date \<Rightarrow> Inventory \<Rightarrow> error + Inventory" where
  "reserveStock orderId quantity expiresAt now s =
     (if quantity \<le> 0 then
        Inl (DomainError ''Reservation quantity must be greater than zero'')
      else if getAvailableStock s < quantity then
        Inl (DomainError ''Insufficient available stock for reservation'')
      else
        Inr (Inventory_applyEvent
               (StockReserved (inv_id s) (inv_productId s) orderId quantity now expiresAt now) s))"

definition releaseStock :: "string \<Rightarrow> string \<Rightarrow> date \<Rightarrow> Inventory \<Rightarrow> error + Inventory" where
  "releaseStock orderId reason now s =
     (case map_of (inv_reservations s) (reservationId s orderId) of
        None \<Rightarrow> Inl (DomainError ''Stock reservation not found'')
      | Some reservation \<Rightarrow>
          Inr (Inventory_applyEvent
                 (StockReleased (inv_id s) (inv_productId s) orderId (res_quantity reservation)
                    now reason now) s))"

definition allocateStock :: "string \<Rightarrow> int \<Rightarrow> date \<Rightarrow> Inventory \<Rightarrow> error + Inventory" where
  "allocateStock orderId quantity now s =
     (case map_of (inv_reservations s) (reservationId s orderId) of
        None \<Rightarrow> Inl (DomainError ''Stock reservation not found'')
      | Some reservation \<Rightarrow>
          if res_quantity reservation < quantity then
            Inl (DomainError ''Allocation quantity cannot exceed reserved quantity'')
          else
            Inr (Inventory_applyEvent
                   (StockAllocated (inv_id s) (inv_productId s) orderId quantity now now) s))"

definition updateLowStockThreshold :: "int \<Rightarrow> date \<Rightarrow> Inventory \<Rightarrow> error + Inventory" where
  "updateLowStockThreshold newThreshold now s =
     (if newThreshold < 0 then Inl (DomainError ''Low stock threshold cannot be negative'')
      else
        Inr (Inventory_applyEvent
               (InventoryThresholdUpdated (inv_id s) (inv_productId s) (inv_lowStockThreshold s)
                  newThreshold now now) s))"


text \<open>
  The shape of the \<open>reservations\<close> map: no key occurs twice, and every reservation is
  stored under the key made of the aggregate's id and the reservation's own order id.
\<close>

definition reservationsKeyed :: "Inventory \<Rightarrow> bool" where
  "reservationsKeyed s \<longleftrightarrow>
     distinct (map fst (inv_reservations s)) \<and>
     list_all (\<lambda>(k, r). k = reservationId s (res_orderId r)) (inv_reservations s)"

text \<open>
  \<open>PostgreSQLEventStoreInventoryRepository.save\<close>. The result is the outcome of the call,
  the aggregate and the table as they are afterwards. \<open>save\<close> itself never clears the
  uncommitted events: its callers, the command handlers, call \<open>markEventsAsCommitted\<close>
  after they have published them.
\<close>

definition InventoryRepository_save ::
  "pg \<Rightarrow> Inventory \<Rightarrow> InventoryData events_table \<Rightarrow>
     (error + unit) \<times> Inventory \<times> InventoryData events_table"
where
  "InventoryRepository_save db inventory tbl =
     (let events = Inventory_getUncommittedEvents inventory in
      if length events = 0 then (Inr (), inventory, tbl)
      else
        (let expectedVersion = inv_version inventory - int (length events);
             (res, tbl') = saveEvents db (inv_id inventory) events expectedVersion tbl
         in (res, inventory, tbl')))"


section \<open>Payment aggregate\<close>

text \<open>Values of type \<open>any\<close> (gateway responses, the billing address of the payment details)
  are kept as their JSON text.\<close>

type_synonym json = string

record PaymentDetails =
  pd_cardNumber :: "string option"
  pd_cardType :: "string option"
  pd_billingAddress :: json

datatype PaymentData =
    PaymentRequestedData string string int string string PaymentDetails
  | PaymentProcessedData string string int string string date json
  | PaymentFailedData string string string date "json option"
  | PaymentRefundedData string string int string string date "json option"
  | PaymentCancelledData string date string string
  | OtherPaymentData

record Payment =
  pay_id :: string
  pay_orderId :: string
  pay_userId :: string
  pay_amount :: int
  pay_currency :: string
  pay_paymentMethod :: string
  pay_status :: string
  pay_paymentDetails :: PaymentDetails
  pay_transactionId :: "string option"
  pay_gatewayResponse :: "json option"
  pay_failureReason :: "string option"
  pay_errorCode :: "string option"
  pay_refundId :: "string option"
  pay_refundAmount :: "int option"
  pay_refundReason :: "string option"
  pay_refundMethod :: "string option"
  pay_createdAt :: date
  pay_updatedAt :: date
  pay_processedAt :: "date option"
  pay_failedAt :: "date option"
  pay_refundedAt :: "date option"
  pay_cancelledAt :: "date option"
  pay_version :: int
  pay_uncommittedEvents :: "PaymentData event list"

definition Payment_new :: "string \<Rightarrow> date \<Rightarrow> Payment" where
  "Payment_new ident now =
     \<lparr>pay_id = ident, pay_orderId = [], pay_userId = [], pay_amount = 0,
      pay_currency = ''USD'', pay_paymentMethod = [], pay_status = ''pending'',
      pay_paymentDetails = \<lparr>pd_cardNumber = None, pd_cardType = None, pd_billingAddress = ''{}''\<rparr>,
      pay_transactionId = None, pay_gatewayResponse = None, pay_failureReason = None,
      pay_errorCode = None, pay_refundId = None, pay_refundAmount = None,
      pay_refundReason = None, pay_refundMethod = None,
      pay_createdAt = now, pay_updatedAt = now, pay_processedAt = None, pay_failedAt = None,
      pay_refundedAt = None, pay_cancelledAt = None,
      pay_version = 0, pay_uncommittedEvents = []\<rparr>"

definition applyPaymentRequested ::
  "string \<Rightarrow> string \<Rightarrow> int \<Rightarrow> string \<Rightarrow> string \<Rightarrow> PaymentDetails \<Rightarrow> date \<Rightarrow> Payment \<Rightarrow> Payment"
where
  "applyPaymentRequested orderId userId amount currency paymentMethod details ts s =
     s\<lparr>pay_orderId := orderId, pay_userId := userId, pay_amount := amount,
       pay_currency := currency, pay_paymentMethod := paymentMethod,
       pay_paymentDetails := details, pay_status := ''pending'',
       pay_createdAt := ts, pay_updatedAt := ts\<rparr>"

definition applyPaymentProcessed :: "string \<Rightarrow> json \<Rightarrow> date \<Rightarrow> date \<Rightarrow> Payment \<Rightarrow> Payment" where
  "applyPaymentProcessed transactionId gatewayResponse processedAt ts s =
     s\<lparr>pay_status := ''completed'', pay_transactionId := Some transactionId,
       pay_gatewayResponse := Some gatewayResponse, pay_processedAt := Some processedAt,
       pay_updatedAt := ts\<rparr>"

definition applyPaymentFailed ::
  "string \<Rightarrow> string \<Rightarrow> json option \<Rightarrow> date \<Rightarrow> date \<Rightarrow> Payment \<Rightarrow> Payment" where
  "applyPaymentFailed failureReason errorCode gatewayResponse failedAt ts s =
     s\<lparr>pay_status := ''failed'', pay_failureReason := Some failureReason,
       pay_errorCode := Some errorCode, pay_gatewayResponse := gatewayResponse,
       pay_failedAt := Some failedAt, pay_updatedAt := ts\<rparr>"

text \<open>\<open>applyPaymentRefunded\<close> reads \<open>data.refundMethod\<close>, a field that the event class
  \<open>PaymentRefunded\<close> does not have: the aggregate's \<open>refundMethod\<close> becomes undefined.\<close>

definition applyPaymentRefunded ::
  "string \<Rightarrow> int \<Rightarrow> string \<Rightarrow> json option \<Rightarrow> date \<Rightarrow> date \<Rightarrow> Payment \<Rightarrow> Payment" where
  "applyPaymentRefunded refundId refundAmount refundReason gatewayResponse refundedAt ts s =
     s\<lparr>pay_status := ''refunded'', pay_refundId := Some refundId,
       pay_refundAmount := Some refundAmount, pay_refundReason := Some refundReason,
       pay_refundMethod := None, pay_gatewayResponse := gatewayResponse,
       pay_refundedAt := Some refundedAt, pay_updatedAt := ts\<rparr>"

definition applyPaymentCancelled :: "date \<Rightarrow> date \<Rightarrow> Payment \<Rightarrow> Payment" where
  "applyPaymentCancelled cancelledAt ts s =
     s\<lparr>pay_status := ''cancelled'', pay_cancelledAt := Some cancelledAt, pay_updatedAt := ts\<rparr>"

definition Payment_apply :: "PaymentData event \<Rightarrow> Payment \<Rightarrow> Payment" where
  "Payment_apply e s =
     (case data e of
        PaymentRequestedData orderId userId amount currency paymentMethod details \<Rightarrow>
          applyPaymentRequested orderId userId amount currency paymentMethod details
            (timestamp e) s
      | PaymentProcessedData orderId transactionId amount currency paymentMethod processedAt
          gatewayResponse \<Rightarrow>
          applyPaymentProcessed transactionId gatewayResponse processedAt (timestamp e) s
      | PaymentFailedData orderId failureReason errorCode failedAt gatewayResponse \<Rightarrow>
          applyPaymentFailed failureReason errorCode gatewayResponse failedAt (timestamp e) s
      | PaymentRefundedData orderId refundId refundAmount currency refundReason refundedAt
          gatewayResponse \<Rightarrow>
          applyPaymentRefunded refundId refundAmount refundReason gatewayResponse refundedAt
            (timestamp e) s
      | PaymentCancelledData orderId cancelledAt cancelledBy reason \<Rightarrow>
          applyPaymentCancelled cancelledAt (timestamp e) s
      | OtherPaymentData \<Rightarrow> s)"

definition Payment_applyEvent :: "PaymentData event \<Rightarrow> Payment \<Rightarrow> Payment" where
  "Payment_applyEvent e s =
     (let s' = Payment_apply e s in
      s'\<lparr>pay_version := pay_version s' + 1,
         pay_uncommittedEvents := pay_uncommittedEvents s' @ [e]\<rparr>)"

definition Payment_fromEvents :: "string \<Rightarrow> PaymentData event list \<Rightarrow> date \<Rightarrow> Payment" where
  "Payment_fromEvents ident evs now = fold Payment_applyEvent evs (Payment_new ident now)"

definition Payment_getUncommittedEvents :: "Payment \<Rightarrow> PaymentData event list" where
  "Payment_getUncommittedEvents s = pay_uncommittedEvents s"


section \<open>Order aggregate\<close>

text \<open>
  The value objects \<open>OrderAddress\<close> and \<open>OrderItem\<close> validate their data against a Joi
  schema in the constructor and throw when the schema reports an error. Of the schema
  language, \<open>string().min(a).max(b).required()\<close> is a string of length \<open>a\<close> to \<open>b\<close>; an
  optional string may be absent but, when present, is not empty; \<open>number().integer().min(1)\<close>
  and \<open>number().positive()\<close> are bounds on an integer; \<open>uppercase()\<close> and \<open>precision(2)\<close>
  convert and never reject. The format checks \<open>uuid()\<close> and \<open>email()\<close> of the library are
  parameters.
\<close>

record formats =
  isGuid :: "string \<Rightarrow> bool"
  isEmail :: "string \<Rightarrow> bool"

definition strBetween :: "nat \<Rightarrow> nat \<Rightarrow> string \<Rightarrow> bool" where
  "strBetween lo hi s \<longleftrightarrow> lo \<le> length s \<and> length s \<le> hi"

record OrderAddressData =
  addr_street :: string
  addr_city :: string
  addr_state :: string
  addr_zipCode :: string
  addr_country :: string
  addr_phone :: "string option"
  addr_email :: "string option"

definition OrderAddress_schema :: "formats \<Rightarrow> OrderAddressData \<Rightarrow> bool" where
  "OrderAddress_schema F d \<longleftrightarrow>
     strBetween 1 255 (addr_street d) \<and> strBetween 1 100 (addr_city d) \<and>
     strBetween 1 100 (addr_state d) \<and> strBetween 1 20 (addr_zipCode d) \<and>
     strBetween 1 100 (addr_country d) \<and>
     (case addr_phone d of None \<Rightarrow> True | Some p \<Rightarrow> strBetween 1 20 p) \<and>
     (case addr_email d of None \<Rightarrow> True | Some m \<Rightarrow> isEmail F m)"

definition OrderAddress_new :: "formats \<Rightarrow> OrderAddressData \<Rightarrow> error + OrderAddressData" where
  "OrderAddress_new F d =
     (if OrderAddress_schema F d then Inr d else Inl (DomainError ''Invalid order address''))"

record OrderItemData =
  item_id :: string
  item_productId :: string
  item_sku :: string
  item_name :: string
  item_quantity :: int
  item_unitPrice :: int
  item_totalPrice :: int
  item_currency :: string

definition OrderItem_schema :: "formats \<Rightarrow> OrderItemData \<Rightarrow> bool" where
  "OrderItem_schema F d \<longleftrightarrow>
     isGuid F (item_id d) \<and> isGuid F (item_productId d) \<and>
     strBetween 1 100 (item_sku d) \<and> strBetween 1 255 (item_name d) \<and>
     1 \<le> item_quantity d \<and> 0 < item_unitPrice d \<and> 0 < item_totalPrice d \<and>
     length (item_currency d) = 3"

definition OrderItem_new :: "formats \<Rightarrow> OrderItemData \<Rightarrow> error + OrderItemData" where
  "OrderItem_new F d =
     (if OrderItem_schema F d then Inr d else Inl (DomainError ''Invalid order item''))"

definition OrderItem_updateQuantity :: "formats \<Rightarrow> int \<Rightarrow> OrderItemData \<Rightarrow> error + OrderItemData" where
  "OrderItem_updateQuantity F newQuantity item =
     (if newQuantity \<le> 0 then Inl (DomainError ''Quantity must be greater than zero'')
      else OrderItem_new F
             (item\<lparr>item_quantity := newQuantity,
                   item_totalPrice := item_unitPrice item * newQuantity\<rparr>))"

text \<open>An entry of \<open>items\<close> in the data of \<open>OrderCreated\<close>.\<close>

record OrderCreatedItem =
  oci_productId :: string
  oci_quantity :: int
  oci_price :: int
  oci_sku :: string

datatype AddressType = Shipping | Billing

datatype OrderData =
    OrderCreatedData string "OrderCreatedItem list" int string OrderAddressData OrderAddressData
      string
  | OrderConfirmedData date string
  | OrderPaymentRequestedData string int string string
  | OrderPaidData string date string int string
  | OrderPaymentFailedData string date string "string option"
  | OrderShippedData string string date date
  | OrderDeliveredData date string "string option"
  | OrderCancelledData date string string "int option"
  | OrderRefundedData string date int string string string
  | OrderItemUpdatedData string string int int date
  | OrderItemRemovedData string string date "string option"
  | OrderStatusChangedData string string date string "string option"
  | OrderAddressUpdatedData AddressType OrderAddressData OrderAddressData date
  | OtherOrderData

definition OrderCreated ::
  "string \<Rightarrow> string \<Rightarrow> OrderCreatedItem list \<Rightarrow> int \<Rightarrow> string \<Rightarrow> OrderAddressData \<Rightarrow>
     OrderAddressData \<Rightarrow> string \<Rightarrow> date \<Rightarrow> OrderData event"
where
  "OrderCreated aid userId items totalAmount currency shippingAddress billingAddress
       paymentMethod now =
     Event ''OrderCreated'' aid
       (OrderCreatedData userId items totalAmount currency shippingAddress billingAddress
          paymentMethod) now"

definition OrderConfirmed :: "string \<Rightarrow> date \<Rightarrow> string \<Rightarrow> date \<Rightarrow> OrderData event" where
  "OrderConfirmed aid confirmedAt confirmedBy now =
     Event ''OrderConfirmed'' aid (OrderConfirmedData confirmedAt confirmedBy) now"

definition OrderCancelled ::
  "string \<Rightarrow> date \<Rightarrow> string \<Rightarrow> string \<Rightarrow> int option \<Rightarrow> date \<Rightarrow> OrderData event" where
  "OrderCancelled aid cancelledAt cancelledBy reason refundAmount now =
     Event ''OrderCancelled'' aid (OrderCancelledData cancelledAt cancelledBy reason refundAmount)
       now"

text \<open>The private fields of class \<open>Order\<close>. \<open>status\<close> is a string: \<open>applyOrderStatusChanged\<close>
  stores whatever \<open>newStatus\<close> the event carries.\<close>

record Order =
  ord_id :: string
  ord_userId :: string
  ord_items :: "(string \<times> OrderItemData) list"
  ord_totalAmount :: int
  ord_currency :: string
  ord_status :: string
  ord_shippingAddress :: OrderAddressData
  ord_billingAddress :: OrderAddressData
  ord_paymentMethod :: string
  ord_paymentId :: "string option"
  ord_trackingNumber :: "string option"
  ord_carrier :: "string option"
  ord_createdAt :: date
  ord_updatedAt :: date
  ord_confirmedAt :: "date option"
  ord_paidAt :: "date option"
  ord_shippedAt :: "date option"
  ord_deliveredAt :: "date option"
  ord_cancelledAt :: "date option"
  ord_refundedAt :: "date option"
  ord_version :: int
  ord_uncommittedEvents :: "OrderData event list"

text \<open>The address \<open>{street: '', city: '', state: '', zipCode: '', country: ''}\<close> that the
  constructor of \<open>Order\<close> passes to \<open>new OrderAddress\<close>, twice.\<close>

definition blankAddress :: OrderAddressData where
  "blankAddress =
     \<lparr>addr_street = [], addr_city = [], addr_state = [], addr_zipCode = [],
      addr_country = [], addr_phone = None, addr_email = None\<rparr>"

definition Order_new :: "formats \<Rightarrow> string \<Rightarrow> date \<Rightarrow> error + Order" where
  "Order_new F ident now =
     (case OrderAddress_new F blankAddress of
        Inl err \<Rightarrow> Inl err
      | Inr shipping \<Rightarrow>
          (case OrderAddress_new F blankAddress of
             Inl err \<Rightarrow> Inl err
           | Inr billing \<Rightarrow>
               Inr \<lparr>ord_id = ident, ord_userId = [], ord_items = [], ord_totalAmount = 0,
                    ord_currency = ''USD'', ord_status = ''pending'',
                    ord_shippingAddress = shipping, ord_billingAddress = billing,
                    ord_paymentMethod = [], ord_paymentId = None, ord_trackingNumber = None,
                    ord_carrier = None, ord_createdAt = now, ord_updatedAt = now,
                    ord_confirmedAt = None, ord_paidAt = None, ord_shippedAt = None,
                    ord_deliveredAt = None, ord_cancelledAt = None, ord_refundedAt = None,
                    ord_version = 0, ord_uncommittedEvents = []\<rparr>))"

text \<open>The \<open>forEach\<close> of \<open>applyOrderCreated\<close> that builds and stores one \<open>OrderItem\<close> for
  each item of the event.\<close>

fun addItems :: "formats \<Rightarrow> OrderCreatedItem list \<Rightarrow> Order \<Rightarrow> error + Order" where
  "addItems F [] s = Inr s"
| "addItems F (it # its) s =
     (case OrderItem_new F
             \<lparr>item_id = ord_id s @ ''-'' @ oci_productId it,
              item_productId = oci_productId it, item_sku = oci_sku it, item_name = [],
              item_quantity = oci_quantity it, item_unitPrice = oci_price it,
              item_totalPrice = oci_price it * oci_quantity it,
              item_currency = ord_currency s\<rparr> of
        Inl err \<Rightarrow> Inl err
      | Inr orderItem \<Rightarrow>
          addItems F its
            (s\<lparr>ord_items := AList.update (item_id orderItem) orderItem (ord_items s)\<rparr>))"

definition applyOrderCreated ::
  "formats \<Rightarrow> string \<Rightarrow> OrderCreatedItem list \<Rightarrow> int \<Rightarrow> string \<Rightarrow> OrderAddressData \<Rightarrow>
     OrderAddressData \<Rightarrow> string \<Rightarrow> date \<Rightarrow> Order \<Rightarrow> error + Order"
where
  "applyOrderCreated F userId items totalAmount currency shippingAddress billingAddress
       paymentMethod ts s =
     (case OrderAddress_new F shippingAddress of
        Inl err \<Rightarrow> Inl err
      | Inr shipping \<Rightarrow>
          (case OrderAddress_new F billingAddress of
             Inl err \<Rightarrow> Inl err
           | Inr billing \<Rightarrow>
               (case addItems F items
                       (s\<lparr>ord_userId := userId, ord_currency := currency,
                          ord_shippingAddress := shipping, ord_billingAddress := billing,
                          ord_paymentMethod := paymentMethod,
                          ord_createdAt := ts, ord_updatedAt := ts\<rparr>) of
                  Inl err \<Rightarrow> Inl err
                | Inr s' \<Rightarrow> Inr (s'\<lparr>ord_totalAmount := totalAmount\<rparr>))))"

definition applyOrderConfirmed :: "date \<Rightarrow> date \<Rightarrow> Order \<Rightarrow> Order" where
  "applyOrderConfirmed confirmedAt ts s =
     s\<lparr>ord_status := ''confirmed'', ord_confirmedAt := Some confirmedAt, ord_updatedAt := ts\<rparr>"

definition applyOrderPaymentRequested :: "string \<Rightarrow> date \<Rightarrow> Order \<Rightarrow> Order" where
  "applyOrderPaymentRequested paymentId ts s =
     s\<lparr>ord_status := ''payment_pending'', ord_paymentId := Some paymentId, ord_updatedAt := ts\<rparr>"

definition applyOrderPaid :: "string \<Rightarrow> date \<Rightarrow> date \<Rightarrow> Order \<Rightarrow> Order" where
  "applyOrderPaid paymentId paidAt ts s =
     s\<lparr>ord_status := ''paid'', ord_paymentId := Some paymentId, ord_paidAt := Some paidAt,
       ord_updatedAt := ts\<rparr>"

definition applyOrderPaymentFailed :: "date \<Rightarrow> Order \<Rightarrow> Order" where
  "applyOrderPaymentFailed ts s = s\<lparr>ord_status := ''pending'', ord_updatedAt := ts\<rparr>"

definition applyOrderShipped :: "string \<Rightarrow> string \<Rightarrow> date \<Rightarrow> date \<Rightarrow> Order \<Rightarrow> Order" where
  "applyOrderShipped trackingNumber carrier shippedAt ts s =
     s\<lparr>ord_status := ''shipped'', ord_trackingNumber := Some trackingNumber,
       ord_carrier := Some carrier, ord_shippedAt := Some shippedAt, ord_updatedAt := ts\<rparr>"

definition applyOrderDelivered :: "date \<Rightarrow> date \<Rightarrow> Order \<Rightarrow> Order" where
  "applyOrderDelivered deliveredAt ts s =
     s\<lparr>ord_status := ''delivered'', ord_deliveredAt := Some deliveredAt, ord_updatedAt := ts\<rparr>"

definition applyOrderCancelled :: "date \<Rightarrow> date \<Rightarrow> Order \<Rightarrow> Order" where
  "applyOrderCancelled cancelledAt ts s =
     s\<lparr>ord_status := ''cancelled'', ord_cancelledAt := Some cancelledAt, ord_updatedAt := ts\<rparr>"

definition applyOrderRefunded :: "date \<Rightarrow> date \<Rightarrow> Order \<Rightarrow> Order" where
  "applyOrderRefunded refundedAt ts s =
     s\<lparr>ord_status := ''refunded'', ord_refundedAt := Some refundedAt, ord_updatedAt := ts\<rparr>"

definition recalculateTotal :: "Order \<Rightarrow> Order" where
  "recalculateTotal s =
     s\<lparr>ord_totalAmount :=
         foldl (\<lambda>sum item. sum + item_totalPrice item) 0 (map snd (ord_items s))\<rparr>"

definition applyOrderItemUpdated :: "formats \<Rightarrow> string \<Rightarrow> int \<Rightarrow> date \<Rightarrow> Order \<Rightarrow> error + Order" where
  "applyOrderItemUpdated F itemId quantity ts s =
     (case map_of (ord_items s) itemId of
        Some item \<Rightarrow>
          (case OrderItem_updateQuantity F quantity item of
             Inl err \<Rightarrow> Inl err
           | Inr updatedItem \<Rightarrow>
               Inr ((recalculateTotal
                       (s\<lparr>ord_items := AList.update itemId updatedItem (ord_items s)\<rparr>))
                    \<lparr>ord_updatedAt := ts\<rparr>))
      | None \<Rightarrow> Inr (s\<lparr>ord_updatedAt := ts\<rparr>))"

definition applyOrderItemRemoved :: "string \<Rightarrow> date \<Rightarrow> Order \<Rightarrow> Order" where
  "applyOrderItemRemoved itemId ts s =
     (recalculateTotal (s\<lparr>ord_items := AList.delete itemId (ord_items s)\<rparr>))
     \<lparr>ord_updatedAt := ts\<rparr>"

definition applyOrderStatusChanged :: "string \<Rightarrow> date \<Rightarrow> Order \<Rightarrow> Order" where
  "applyOrderStatusChanged newStatus ts s = s\<lparr>ord_status := newStatus, ord_updatedAt := ts\<rparr>"

definition applyOrderAddressUpdated ::
  "formats \<Rightarrow> AddressType \<Rightarrow> OrderAddressData \<Rightarrow> date \<Rightarrow> Order \<Rightarrow> error + Order" where
  "applyOrderAddressUpdated F addressType newAddress ts s =
     (case OrderAddress_new F newAddress of
        Inl err \<Rightarrow> Inl err
      | Inr a \<Rightarrow>
          (case addressType of
             Shipping \<Rightarrow> Inr (s\<lparr>ord_shippingAddress := a, ord_updatedAt := ts\<rparr>)
           | Billing \<Rightarrow> Inr (s\<lparr>ord_billingAddress := a, ord_updatedAt := ts\<rparr>)))"

definition Order_apply :: "formats \<Rightarrow> OrderData event \<Rightarrow> Order \<Rightarrow> error + Order" where
  "Order_apply F e s =
     (case data e of
        OrderCreatedData userId items totalAmount currency shippingAddress billingAddress
          paymentMethod \<Rightarrow>
          applyOrderCreated F userId items totalAmount currency shippingAddress billingAddress
            paymentMethod (timestamp e) s
      | OrderConfirmedData confirmedAt confirmedBy \<Rightarrow>
          Inr (applyOrderConfirmed confirmedAt (timestamp e) s)
      | OrderPaymentRequestedData paymentId amount currency paymentMethod \<Rightarrow>
          Inr (applyOrderPaymentRequested paymentId (timestamp e) s)
      | OrderPaidData paymentId paidAt transactionId amount currency \<Rightarrow>
          Inr (applyOrderPaid paymentId paidAt (timestamp e) s)
      | OrderPaymentFailedData paymentId failedAt reason errorCode \<Rightarrow>
          Inr (applyOrderPaymentFailed (timestamp e) s)
      | OrderShippedData trackingNumber carrier shippedAt estimatedDelivery \<Rightarrow>
          Inr (applyOrderShipped trackingNumber carrier shippedAt (timestamp e) s)
      | OrderDeliveredData deliveredAt deliveredTo signature \<Rightarrow>
          Inr (applyOrderDelivered deliveredAt (timestamp e) s)
      | OrderCancelledData cancelledAt cancelledBy reason refundAmount \<Rightarrow>
          Inr (applyOrderCancelled cancelledAt (timestamp e) s)
      | OrderRefundedData refundId refundedAt refundAmount currency reason refundMethod \<Rightarrow>
          Inr (applyOrderRefunded refundedAt (timestamp e) s)
      | OrderItemUpdatedData itemId productId quantity price updatedAt \<Rightarrow>
          applyOrderItemUpdated F itemId quantity (timestamp e) s
      | OrderItemRemovedData itemId productId removedAt reason \<Rightarrow>
          Inr (applyOrderItemRemoved itemId (timestamp e) s)
      | OrderStatusChangedData oldStatus newStatus changedAt changedBy reason \<Rightarrow>
          Inr (applyOrderStatusChanged newStatus (timestamp e) s)
      | OrderAddressUpdatedData addressType oldAddress newAddress updatedAt \<Rightarrow>
          applyOrderAddressUpdated F addressType newAddress (timestamp e) s
      | OtherOrderData \<Rightarrow> Inr s)"

definition Order_applyEvent :: "formats \<Rightarrow> OrderData event \<Rightarrow> Order \<Rightarrow> error + Order" where
  "Order_applyEvent F e s =
     (case Order_apply F e s of
        Inl err \<Rightarrow> Inl err
      | Inr s' \<Rightarrow>
          Inr (s'\<lparr>ord_version := ord_version s' + 1,
                  ord_uncommittedEvents := ord_uncommittedEvents s' @ [e]\<rparr>))"

text \<open>\<open>Order.create\<close>: the constructor runs first; \<open>totalAmount\<close> is the sum of the
  \<open>totalPrice\<close> of the items, the currency is that of the first item, or \<open>'USD'\<close> when
  there is none or it is empty.\<close>

definition Order_create ::
  "formats \<Rightarrow> string \<Rightarrow> string \<Rightarrow> OrderItemData list \<Rightarrow> OrderAddressData \<Rightarrow> OrderAddressData \<Rightarrow>
     string \<Rightarrow> date \<Rightarrow> error + Order"
where
  "Order_create F ident userId items shippingAddress billingAddress paymentMethod now =
     (case Order_new F ident now of
        Inl err \<Rightarrow> Inl err
      | Inr order \<Rightarrow>
          (let totalAmount = foldl (\<lambda>sum item. sum + item_totalPrice item) 0 items in
           Order_applyEvent F
             (OrderCreated ident userId
                (map (\<lambda>item. \<lparr>oci_productId = item_productId item,
                               oci_quantity = item_quantity item,
                               oci_price = item_unitPrice item, oci_sku = item_sku item\<rparr>) items)
                totalAmount
                (case items of
                   [] \<Rightarrow> ''USD''
                 | item # _ \<Rightarrow> if item_currency item = [] then ''USD'' else item_currency item)
                shippingAddress billingAddress paymentMethod now)
             order))"

fun Order_applyEvents :: "formats \<Rightarrow> OrderData event list \<Rightarrow> Order \<Rightarrow> error + Order" where
  "Order_applyEvents F [] s = Inr s"
| "Order_applyEvents F (e # es) s =
     (case Order_applyEvent F e s of
        Inl err \<Rightarrow> Inl err
      | Inr s' \<Rightarrow> Order_applyEvents F es s')"

definition Order_fromEvents :: "formats \<Rightarrow> string \<Rightarrow> OrderData event list \<Rightarrow> date \<Rightarrow> error + Order" where
  "Order_fromEvents F ident evs now =
     (case Order_new F ident now of
        Inl err \<Rightarrow> Inl err
      | Inr order \<Rightarrow> Order_applyEvents F evs order)"

definition Order_confirm :: "formats \<Rightarrow> string \<Rightarrow> date \<Rightarrow> Order \<Rightarrow> error + Order" where
  "Order_confirm F confirmedBy now s =
     (if ord_status s \<noteq> ''pending'' then
        Inl (DomainError ''Order can only be confirmed when in pending status'')
      else Order_applyEvent F (OrderConfirmed (ord_id s) now confirmedBy now) s)"

definition Order_cancel ::
  "formats \<Rightarrow> string \<Rightarrow> string \<Rightarrow> int option \<Rightarrow> date \<Rightarrow> Order \<Rightarrow> error + Order" where
  "Order_cancel F cancelledBy reason refundAmount now s =
     (if ord_status s \<in> set [''cancelled'', ''delivered'', ''refunded''] then
        Inl (DomainError ''Order cannot be cancelled in current status'')
      else Order_applyEvent F (OrderCancelled (ord_id s) now cancelledBy reason refundAmount now) s)"

definition Order_getUncommittedEvents :: "Order \<Rightarrow> OrderData event list" where
  "Order_getUncommittedEvents s = ord_uncommittedEvents s"

text \<open>\<open>createOrder\<close> of \<open>OrderCommandHandlers\<close>, up to the call of \<open>Order.create\<close>: each item
  of the command becomes an \<open>OrderItemData\<close> with \<open>totalPrice = price * quantity\<close>.\<close>

record CreateOrderItem =
  coi_productId :: string
  coi_quantity :: int
  coi_price :: int
  coi_sku :: string
  coi_name :: string

definition createOrder ::
  "formats \<Rightarrow> string \<Rightarrow> string \<Rightarrow> CreateOrderItem list \<Rightarrow> OrderAddressData \<Rightarrow> OrderAddressData \<Rightarrow>
     string \<Rightarrow> string option \<Rightarrow> date \<Rightarrow> error + Order"
where
  "createOrder F orderId userId items shippingAddress billingAddress paymentMethod cur now =
     (let currency = (case cur of None \<Rightarrow> ''USD'' | Some c \<Rightarrow> if c = [] then ''USD'' else c);
          orderItems =
            map (\<lambda>item. \<lparr>item_id = orderId @ ''-'' @ coi_productId item,
                         item_productId = coi_productId item, item_sku = coi_sku item,
                         item_name = coi_name item, item_quantity = coi_quantity item,
                         item_unitPrice = coi_price item,
                         item_totalPrice = coi_price item * coi_quantity item,
                         item_currency = currency\<rparr>) items
      in Order_create F orderId userId orderItems shippingAddress billingAddress paymentMethod
           now)"

text \<open>\<open>PostgreSQLEventStoreOrderRepository.save\<close>\<close>

definition OrderRepository_save ::
  "pg \<Rightarrow> Order \<Rightarrow> OrderData events_table \<Rightarrow> (error + unit) \<times> Order \<times> OrderData events_table"
where
  "OrderRepository_save db order tbl =
     (let events = Order_getUncommittedEvents order in
      if length events = 0 then (Inr (), order, tbl)
      else
        (let expectedVersion = ord_version order - int (length events);
             (res, tbl') = saveEvents db (ord_id order) events expectedVersion tbl
         in (res, order, tbl')))"


section \<open>Product aggregate\<close>

text \<open>The value objects \<open>ProductPrice\<close> and \<open>ProductAttributes\<close>, validated like those of
  the order; a value of type \<open>any\<close> is kept as its JSON text.\<close>

record ProductPriceData =
  pp_amount :: int
  pp_currency :: string
  pp_compareAtPrice :: "int option"
  pp_discountPercentage :: "int option"

definition ProductPrice_schema :: "ProductPriceData \<Rightarrow> bool" where
  "ProductPrice_schema d \<longleftrightarrow>
     0 < pp_amount d \<and> length (pp_currency d) = 3 \<and>
     (case pp_compareAtPrice d of None \<Rightarrow> True | Some c \<Rightarrow> 0 < c) \<and>
     (case pp_discountPercentage d of None \<Rightarrow> True | Some p \<Rightarrow> 0 \<le> p \<and> p \<le> 100)"

definition ProductPrice_new :: "ProductPriceData \<Rightarrow> error + ProductPriceData" where
  "ProductPrice_new d =
     (if ProductPrice_schema d then Inr d else Inl (DomainError ''Invalid product price''))"

record ProductAttribute =
  attr_key :: string
  attr_value :: json
  attr_type :: string
  attr_displayName :: "string option"
  attr_unit :: "string option"

definition ProductAttribute_schema :: "ProductAttribute \<Rightarrow> bool" where
  "ProductAttribute_schema a \<longleftrightarrow>
     attr_key a \<noteq> [] \<and>
     attr_type a \<in> set [''string'', ''number'', ''boolean'', ''array'', ''object''] \<and>
     (case attr_displayName a of None \<Rightarrow> True | Some n \<Rightarrow> n \<noteq> []) \<and>
     (case attr_unit a of None \<Rightarrow> True | Some u \<Rightarrow> u \<noteq> [])"

text \<open>The constructor of \<open>ProductAttributes\<close>: after validation, each attribute is stored
  in the map under its key, a later one replacing an earlier one with the same key.\<close>

definition ProductAttributes_new ::
  "ProductAttribute list \<Rightarrow> error + (string \<times> ProductAttribute) list" where
  "ProductAttributes_new attrs =
     (if list_all ProductAttribute_schema attrs
      then Inr (fold (\<lambda>a m. AList.update (attr_key a) a m) attrs [])
      else Inl (DomainError ''Invalid product attributes''))"

definition setAttribute ::
  "string \<Rightarrow> json \<Rightarrow> string \<Rightarrow> (string \<times> ProductAttribute) list \<Rightarrow> (string \<times> ProductAttribute) list"
where
  "setAttribute k v ty m =
     AList.update k
       \<lparr>attr_key = k, attr_value = v, attr_type = ty, attr_displayName = None, attr_unit = None\<rparr>
       m"


datatype ProductData =
    ProductCreatedData string string int string string "string list" "ProductAttribute list" bool
  | ProductUpdatedData "string option" "string option" "int option" "string option"
      "string list option" "ProductAttribute list option" "bool option"
  | ProductPriceChangedData int int "string option"
  | ProductDiscontinuedData "string option" date
  | ProductReactivatedData date
  | ProductStockUpdatedData int int string
  | ProductCategoryChangedData string string
  | ProductImageAddedData string bool
  | ProductImageRemovedData string
  | ProductAttributeUpdatedData string "json option" json
  | OtherProductData

record Product =
  prod_id :: string
  prod_name :: string
  prod_description :: string
  prod_price :: ProductPriceData
  prod_categoryId :: string
  prod_sku :: string
  prod_images :: "string list"
  prod_attributes :: "(string \<times> ProductAttribute) list"
  prod_isActive :: bool
  prod_stock :: int
  prod_createdAt :: date
  prod_updatedAt :: date
  prod_discontinuedAt :: "date option"
  prod_version :: int
  prod_uncommittedEvents :: "ProductData event list"

definition usd :: "int \<Rightarrow> ProductPriceData" where
  "usd amount =
     \<lparr>pp_amount = amount, pp_currency = ''USD'', pp_compareAtPrice = None,
      pp_discountPercentage = None\<rparr>"

text \<open>The constructor of \<open>Product\<close> starts from \<open>new ProductPrice({amount: 0, currency: 'USD'})\<close>
  and \<open>new ProductAttributes({attributes: []})\<close>.\<close>

definition Product_new :: "string \<Rightarrow> date \<Rightarrow> error + Product" where
  "Product_new ident now =
     (case ProductPrice_new (usd 0) of
        Inl err \<Rightarrow> Inl err
      | Inr price \<Rightarrow>
          (case ProductAttributes_new [] of
             Inl err \<Rightarrow> Inl err
           | Inr attrs \<Rightarrow>
               Inr \<lparr>prod_id = ident, prod_name = [], prod_description = [], prod_price = price,
                    prod_categoryId = [], prod_sku = [], prod_images = [],
                    prod_attributes = attrs, prod_isActive = False, prod_stock = 0,
                    prod_createdAt = now, prod_updatedAt = now, prod_discontinuedAt = None,
                    prod_version = 0, prod_uncommittedEvents = []\<rparr>))"

definition applyProductCreated ::
  "string \<Rightarrow> string \<Rightarrow> int \<Rightarrow> string \<Rightarrow> string \<Rightarrow> string list \<Rightarrow> ProductAttribute list \<Rightarrow> bool \<Rightarrow>
     date \<Rightarrow> Product \<Rightarrow> error + Product"
where
  "applyProductCreated name description price categoryId sku images attributes isActive ts s =
     (case ProductPrice_new (usd price) of
        Inl err \<Rightarrow> Inl err
      | Inr p \<Rightarrow>
          (case ProductAttributes_new attributes of
             Inl err \<Rightarrow> Inl err
           | Inr attrs \<Rightarrow>
               Inr (s\<lparr>prod_name := name, prod_description := description, prod_price := p,
                      prod_categoryId := categoryId, prod_sku := sku, prod_images := images,
                      prod_attributes := attrs, prod_isActive := isActive,
                      prod_createdAt := ts, prod_updatedAt := ts\<rparr>)))"

text \<open>\<open>applyProductUpdated\<close> assigns each field that the event defines.\<close>

definition applyProductUpdated ::
  "string option \<Rightarrow> string option \<Rightarrow> string option \<Rightarrow> string list option \<Rightarrow>
     ProductAttribute list option \<Rightarrow> bool option \<Rightarrow> date \<Rightarrow> Product \<Rightarrow> error + Product"
where
  "applyProductUpdated name description categoryId images attributes isActive ts s =
     (let s1 = (case name of None \<Rightarrow> s | Some n \<Rightarrow> s\<lparr>prod_name := n\<rparr>);
          s2 = (case description of None \<Rightarrow> s1 | Some d \<Rightarrow> s1\<lparr>prod_description := d\<rparr>);
          s3 = (case categoryId of None \<Rightarrow> s2 | Some c \<Rightarrow> s2\<lparr>prod_categoryId := c\<rparr>);
          s4 = (case images of None \<Rightarrow> s3 | Some i \<Rightarrow> s3\<lparr>prod_images := i\<rparr>)
      in case (case attributes of
                 None \<Rightarrow> Inr s4
               | Some a \<Rightarrow>
                   (case ProductAttributes_new a of
                      Inl err \<Rightarrow> Inl err
                    | Inr attrs \<Rightarrow> Inr (s4\<lparr>prod_attributes := attrs\<rparr>))) of
           Inl err \<Rightarrow> Inl err
         | Inr s5 \<Rightarrow>
             Inr ((case isActive of None \<Rightarrow> s5 | Some b \<Rightarrow> s5\<lparr>prod_isActive := b\<rparr>)
                  \<lparr>prod_updatedAt := ts\<rparr>))"

definition applyProductPriceChanged :: "int \<Rightarrow> date \<Rightarrow> Product \<Rightarrow> error + Product" where
  "applyProductPriceChanged newPrice ts s =
     (case ProductPrice_new (usd newPrice) of
        Inl err \<Rightarrow> Inl err
      | Inr p \<Rightarrow> Inr (s\<lparr>prod_price := p, prod_updatedAt := ts\<rparr>))"

definition applyProductDiscontinued :: "date \<Rightarrow> date \<Rightarrow> Product \<Rightarrow> Product" where
  "applyProductDiscontinued discontinuedAt ts s =
     s\<lparr>prod_isActive := False, prod_discontinuedAt := Some discontinuedAt,
       prod_updatedAt := ts\<rparr>"

definition applyProductReactivated :: "date \<Rightarrow> Product \<Rightarrow> Product" where
  "applyProductReactivated ts s =
     s\<lparr>prod_isActive := True, prod_discontinuedAt := None, prod_updatedAt := ts\<rparr>"

definition applyProductStockUpdated :: "int \<Rightarrow> date \<Rightarrow> Product \<Rightarrow> Product" where
  "applyProductStockUpdated newStock ts s = s\<lparr>prod_stock := newStock, prod_updatedAt := ts\<rparr>"

definition applyProductCategoryChanged :: "string \<Rightarrow> date \<Rightarrow> Product \<Rightarrow> Product" where
  "applyProductCategoryChanged newCategoryId ts s =
     s\<lparr>prod_categoryId := newCategoryId, prod_updatedAt := ts\<rparr>"

text \<open>\<open>applyProductImageAdded\<close> pushes onto the array in place. In the source that array
  can be the one an earlier \<open>ProductCreated\<close> or \<open>ProductUpdated\<close> event carries; the
  model keeps the aggregate's list apart from the data of its events.\<close>

definition applyProductImageAdded :: "string \<Rightarrow> date \<Rightarrow> Product \<Rightarrow> Product" where
  "applyProductImageAdded imageUrl ts s =
     s\<lparr>prod_images := prod_images s @ [imageUrl], prod_updatedAt := ts\<rparr>"

definition applyProductImageRemoved :: "string \<Rightarrow> date \<Rightarrow> Product \<Rightarrow> Product" where
  "applyProductImageRemoved imageUrl ts s =
     s\<lparr>prod_images := filter (\<lambda>img. img \<noteq> imageUrl) (prod_images s), prod_updatedAt := ts\<rparr>"

definition applyProductAttributeUpdated :: "string \<Rightarrow> json \<Rightarrow> date \<Rightarrow> Product \<Rightarrow> Product" where
  "applyProductAttributeUpdated k newValue ts s =
     s\<lparr>prod_attributes := setAttribute k newValue ''string'' (prod_attributes s),
       prod_updatedAt := ts\<rparr>"

definition Product_apply :: "ProductData event \<Rightarrow> Product \<Rightarrow> error + Product" where
  "Product_apply e s =
     (case data e of
        ProductCreatedData name description price categoryId sku images attributes isActive \<Rightarrow>
          applyProductCreated name description price categoryId sku images attributes isActive
            (timestamp e) s
      | ProductUpdatedData name description price categoryId images attributes isActive \<Rightarrow>
          applyProductUpdated name description categoryId images attributes isActive
            (timestamp e) s
      | ProductPriceChangedData oldPrice newPrice reason \<Rightarrow>
          applyProductPriceChanged newPrice (timestamp e) s
      | ProductDiscontinuedData reason discontinuedAt \<Rightarrow>
          Inr (applyProductDiscontinued discontinuedAt (timestamp e) s)
      | ProductReactivatedData reactivatedAt \<Rightarrow>
          Inr (applyProductReactivated (timestamp e) s)
      | ProductStockUpdatedData oldStock newStock changeReason \<Rightarrow>
          Inr (applyProductStockUpdated newStock (timestamp e) s)
      | ProductCategoryChangedData oldCategoryId newCategoryId \<Rightarrow>
          Inr (applyProductCategoryChanged newCategoryId (timestamp e) s)
      | ProductImageAddedData imageUrl isPrimary \<Rightarrow>
          Inr (applyProductImageAdded imageUrl (timestamp e) s)
      | ProductImageRemovedData imageUrl \<Rightarrow>
          Inr (applyProductImageRemoved imageUrl (timestamp e) s)
      | ProductAttributeUpdatedData k oldValue newValue \<Rightarrow>
          Inr (applyProductAttributeUpdated k newValue (timestamp e) s)
      | OtherProductData \<Rightarrow> Inr s)"

definition Product_applyEvent :: "ProductData event \<Rightarrow> Product \<Rightarrow> error + Product" where
  "Product_applyEvent e s =
     (case Product_apply e s of
        Inl err \<Rightarrow> Inl err
      | Inr s' \<Rightarrow>
          Inr (s'\<lparr>prod_version := prod_version s' + 1,
                  prod_uncommittedEvents := prod_uncommittedEvents s' @ [e]\<rparr>))"

definition Product_create ::
  "string \<Rightarrow> string \<Rightarrow> string \<Rightarrow> ProductPriceData \<Rightarrow> string \<Rightarrow> string \<Rightarrow> string list \<Rightarrow>
     ProductAttribute list \<Rightarrow> date \<Rightarrow> error + Product"
where
  "Product_create ident name description price categoryId sku images attributes now =
     (case Product_new ident now of
        Inl err \<Rightarrow> Inl err
      | Inr product \<Rightarrow>
          Product_applyEvent
            (Event ''ProductCreated'' ident
               (ProductCreatedData name description (pp_amount price) categoryId sku images
                  attributes True) now)
            product)"

fun Product_applyEvents :: "ProductData event list \<Rightarrow> Product \<Rightarrow> error + Product" where
  "Product_applyEvents [] s = Inr s"
| "Product_applyEvents (e # es) s =
     (case Product_applyEvent e s of
        Inl err \<Rightarrow> Inl err
      | Inr s' \<Rightarrow> Product_applyEvents es s')"

definition Product_fromEvents :: "string \<Rightarrow> ProductData event list \<Rightarrow> date \<Rightarrow> error + Product" where
  "Product_fromEvents ident evs now =
     (case Product_new ident now of
        Inl err \<Rightarrow> Inl err
      | Inr product \<Rightarrow> Product_applyEvents evs product)"



definition discontinue :: "string option \<Rightarrow> date \<Rightarrow> Product \<Rightarrow> error + Product" where
  "discontinue reason now s =
     (if \<not> prod_isActive s then Inl (DomainError ''Product is already discontinued'')
      else Product_applyEvent
             (Event ''ProductDiscontinued'' (prod_id s) (ProductDiscontinuedData reason now) now)
             s)"

definition reactivate :: "date \<Rightarrow> Product \<Rightarrow> error + Product" where
  "reactivate now s =
     (if prod_isActive s then Inl (DomainError ''Product is already active'')
      else Product_applyEvent
             (Event ''ProductReactivated'' (prod_id s) (ProductReactivatedData now) now) s)"






definition Product_getUncommittedEvents :: "Product \<Rightarrow> ProductData event list" where
  "Product_getUncommittedEvents s = prod_uncommittedEvents s"

definition Product_markEventsAsCommitted :: "Product \<Rightarrow> Product" where
  "Product_markEventsAsCommitted s = s\<lparr>prod_uncommittedEvents := []\<rparr>"

text \<open>\<open>EventSourcedProductRepository.save\<close>: the expected version it passes is
  \<open>product.getVersion()\<close>; after \<open>saveEvents\<close> has returned it calls
  \<open>markEventsAsCommitted\<close>.\<close>

definition ProductRepository_save ::
  "pg \<Rightarrow> Product \<Rightarrow> ProductData events_table \<Rightarrow>
     (error + unit) \<times> Product \<times> ProductData events_table"
where
  "ProductRepository_save db product tbl =
     (let events = Product_getUncommittedEvents product in
      if 0 < length events then
        (case saveEvents db (prod_id product) events (prod_version product) tbl of
           (Inl err, tbl') \<Rightarrow> (Inl err, product, tbl')
         | (Inr u, tbl') \<Rightarrow> (Inr (), Product_markEventsAsCommitted product, tbl'))
      else (Inr (), product, tbl))"


section \<open>Properties of the event store\<close>

lemma insertEvents_Inr:
  "insertEvents db aid ev i evs tx = Inr tx' \<Longrightarrow>
     \<exists>rows. tx' = tx @ rows \<and> length rows = length evs \<and>
       (\<forall>k<length evs. rows ! k = insertRow db aid (evs ! k) (ev + int (i + k) + 1) (i + k))"
proof (induction evs arbitrary: i tx)
  case Nil
  then show ?case by simp
next
  case (Cons e evs)
  let ?row = "insertRow db aid e (ev + int i + 1) i"
  from Cons.prems have nofail: "\<not> pg_insert_fails db i"
    and rest: "insertEvents db aid ev (Suc i) evs (tx @ [?row]) = Inr tx'"
    by (auto split: if_splits)
  from Cons.IH [OF rest] obtain rows where
    r: "tx' = (tx @ [?row]) @ rows" "length rows = length evs"
       "\<forall>k<length evs. rows ! k = insertRow db aid (evs ! k) (ev + int (Suc i + k) + 1) (Suc i + k)"
    by blast
  have "\<forall>k<length (e # evs). (?row # rows) ! k = insertRow db aid ((e # evs) ! k) (ev + int (i + k) + 1) (i + k)"
  proof (intro allI impI)
    fix k assume "k < length (e # evs)"
    then show "(?row # rows) ! k = insertRow db aid ((e # evs) ! k) (ev + int (i + k) + 1) (i + k)"
      using r(3) by (cases k) auto
  qed
  with r(1,2) show ?case
    by (intro exI [of _ "?row # rows"]) simp
qed

lemma insertEvents_succeeds:
  "(\<forall>k<length evs. \<not> pg_insert_fails db (i + k)) \<Longrightarrow> \<exists>tx'. insertEvents db aid ev i evs tx = Inr tx'"
proof (induction evs arbitrary: i tx)
  case Nil
  then show ?case by simp
next
  case (Cons e evs)
  have "\<not> pg_insert_fails db i" using Cons.prems [rule_format, of 0] by simp
  moreover have "\<forall>k<length evs. \<not> pg_insert_fails db (Suc i + k)"
    using Cons.prems by (metis add_Suc_shift length_Cons not_less_eq)
  ultimately show ?case using Cons.IH [of "Suc i"] by simp
qed

lemma insertEvents_Inr_nofail:
  "insertEvents db aid ev i evs tx = Inr tx' \<Longrightarrow> \<forall>k<length evs. \<not> pg_insert_fails db (i + k)"
proof (induction evs arbitrary: i tx)
  case Nil
  then show ?case by simp
next
  case (Cons e evs)
  from Cons.prems have nofail: "\<not> pg_insert_fails db i"
    and rest: "insertEvents db aid ev (Suc i) evs (tx @ [insertRow db aid e (ev + int i + 1) i]) = Inr tx'"
    by (auto split: if_splits)
  from Cons.IH [OF rest] have ih: "\<forall>k<length evs. \<not> pg_insert_fails db (Suc i + k)" .
  show ?case
  proof (intro allI impI)
    fix k assume "k < length (e # evs)"
    then show "\<not> pg_insert_fails db (i + k)"
      using nofail ih by (cases k) auto
  qed
qed

lemma insertEvents_Inl:
  "insertEvents db aid ev i evs tx = Inl err \<Longrightarrow>
     err = StorageFailure \<and> (\<exists>k<length evs. pg_insert_fails db (i + k))"
proof (induction evs arbitrary: i tx)
  case Nil
  then show ?case by simp
next
  case (Cons e evs)
  show ?case
  proof (cases "pg_insert_fails db i")
    case True
    with Cons.prems show ?thesis by auto
  next
    case False
    with Cons.prems have "insertEvents db aid ev (Suc i) evs (tx @ [insertRow db aid e (ev + int i + 1) i]) = Inl err"
      by simp
    from Cons.IH [OF this] obtain k where "err = StorageFailure" "k < length evs" "pg_insert_fails db (Suc i + k)"
      by blast
    then show ?thesis by (auto intro: exI [of _ "Suc k"])
  qed
qed

lemma saveEvents_unfold:
  "saveEvents db aid evs expectedVersion tbl =
     (if currentVersion aid tbl \<noteq> expectedVersion
      then (Inl (ConcurrencyConflict expectedVersion (currentVersion aid tbl)), tbl)
      else (case insertEvents db aid expectedVersion 0 evs tbl of
              Inl err \<Rightarrow> (Inl err, tbl)
            | Inr tx \<Rightarrow> (Inr (), tx)))"
  by (simp add: saveEvents_def Let_def)

lemma currentVersion_rows:
  "currentVersion aid tbl =
     (if map se_version (filter (\<lambda>r. se_aggregateId r = aid) tbl) = [] then 0
      else Max (set (map se_version (filter (\<lambda>r. se_aggregateId r = aid) tbl))))"
proof (cases "map se_version (filter (\<lambda>r. se_aggregateId r = aid) tbl)")
  case Nil
  then show ?thesis by (simp add: currentVersion_def)
next
  case (Cons v vs)
  have "fold max vs v = Max (set (v # vs))" by (rule Max.set_eq_fold [symmetric])
  with Cons show ?thesis by (simp add: currentVersion_def)
qed

text \<open>
  C2. The current version of an aggregate is the greatest version among the rows of the
  table that carry its id, or 0 when there is none. \<open>saveEvents\<close> fails with a
  concurrency error and leaves the table as it was when that version differs from
  \<open>expectedVersion\<close>; whenever it fails, for that or for a storage failure in the middle of
  the batch, the table is unchanged; it succeeds exactly when the versions agree and no
  insert fails, and then the table has grown by one row for each event of the batch, in
  order: the i-th row (counted from one) carries the aggregate's id, the type, data and
  metadata of the i-th event, the version \<open>expectedVersion + i\<close>, and the key and time the
  database gave it.
\<close>

theorem saveEvents_all_or_nothing:
  "(let persisted = map se_version (filter (\<lambda>r. se_aggregateId r = aid) tbl);
        current = (if persisted = [] then 0 else Max (set persisted));
        outcome = fst (saveEvents db aid evs expectedVersion tbl);
        tbl' = snd (saveEvents db aid evs expectedVersion tbl)
    in (current \<noteq> expectedVersion \<longrightarrow>
          outcome = Inl (ConcurrencyConflict expectedVersion current) \<and> tbl' = tbl) \<and>
       (\<forall>err. outcome = Inl err \<longrightarrow> tbl' = tbl) \<and>
       (outcome = Inr () \<longleftrightarrow>
          current = expectedVersion \<and> (\<forall>i<length evs. \<not> pg_insert_fails db i)) \<and>
       (outcome = Inr () \<longrightarrow>
          (\<exists>rows. tbl' = tbl @ rows \<and> length rows = length evs \<and>
             (\<forall>i<length evs.
                se_aggregateId (rows ! i) = aid \<and>
                se_eventType (rows ! i) = eventType (evs ! i) \<and>
                se_eventData (rows ! i) = data (evs ! i) \<and>
                se_metadata (rows ! i) = (timestamp (evs ! i), metaVersion (evs ! i)) \<and>
                se_version (rows ! i) = expectedVersion + int (i + 1) \<and>
                se_id (rows ! i) = pg_uuid db i \<and>
                se_timestamp (rows ! i) = pg_now db))))"
proof -
  let ?cur = "if map se_version (filter (\<lambda>r. se_aggregateId r = aid) tbl) = [] then 0
      else Max (set (map se_version (filter (\<lambda>r. se_aggregateId r = aid) tbl)))"
  let ?res = "saveEvents db aid evs expectedVersion tbl"
  have cur: "currentVersion aid tbl = ?cur" by (rule currentVersion_rows)
  have c1: "?cur \<noteq> expectedVersion \<longrightarrow>
          fst ?res = Inl (ConcurrencyConflict expectedVersion ?cur) \<and> snd ?res = tbl"
    unfolding cur [symmetric] by (simp add: saveEvents_unfold)
  have c2: "\<forall>err. fst ?res = Inl err \<longrightarrow> snd ?res = tbl"
    by (simp add: saveEvents_unfold split: sum.splits)
  have c3: "fst ?res = Inr () \<longleftrightarrow>
      ?cur = expectedVersion \<and> (\<forall>i<length evs. \<not> pg_insert_fails db i)"
    unfolding cur [symmetric]
  proof (cases "insertEvents db aid expectedVersion 0 evs tbl")
    case (Inl err)
    from insertEvents_Inl [OF this] show "fst ?res = Inr () \<longleftrightarrow>
      currentVersion aid tbl = expectedVersion \<and> (\<forall>i<length evs. \<not> pg_insert_fails db i)"
      using Inl by (auto simp: saveEvents_unfold)
  next
    case (Inr tx)
    from insertEvents_Inr_nofail [OF this] have "\<forall>i<length evs. \<not> pg_insert_fails db i"
      by simp
    with Inr show "fst ?res = Inr () \<longleftrightarrow>
      currentVersion aid tbl = expectedVersion \<and> (\<forall>i<length evs. \<not> pg_insert_fails db i)"
      by (auto simp: saveEvents_unfold)
  qed
  have c4: "fst ?res = Inr () \<longrightarrow>
          (\<exists>rows. snd ?res = tbl @ rows \<and> length rows = length evs \<and>
             (\<forall>i<length evs.
                se_aggregateId (rows ! i) = aid \<and>
                se_eventType (rows ! i) = eventType (evs ! i) \<and>
                se_eventData (rows ! i) = data (evs ! i) \<and>
                se_metadata (rows ! i) = (timestamp (evs ! i), metaVersion (evs ! i)) \<and>
                se_version (rows ! i) = expectedVersion + int (i + 1) \<and>
                se_id (rows ! i) = pg_uuid db i \<and>
                se_timestamp (rows ! i) = pg_now db))"
  proof
    assume ok: "fst ?res = Inr ()"
    then obtain tx where tx: "insertEvents db aid expectedVersion 0 evs tbl = Inr tx"
      and s: "snd ?res = tx"
      by (auto simp: saveEvents_unfold split: if_splits sum.splits)
    from insertEvents_Inr [OF tx] s show "\<exists>rows. snd ?res = tbl @ rows \<and> length rows = length evs \<and>
             (\<forall>i<length evs.
                se_aggregateId (rows ! i) = aid \<and>
                se_eventType (rows ! i) = eventType (evs ! i) \<and>
                se_eventData (rows ! i) = data (evs ! i) \<and>
                se_metadata (rows ! i) = (timestamp (evs ! i), metaVersion (evs ! i)) \<and>
                se_version (rows ! i) = expectedVersion + int (i + 1) \<and>
                se_id (rows ! i) = pg_uuid db i \<and>
                se_timestamp (rows ! i) = pg_now db)"
      by (auto simp: insertRow_def)
  qed
  from c1 c2 c3 c4 show ?thesis unfolding Let_def by blast
qed

theorem saveEvents_all_or_nothing_witness:
  "(let db = \<lparr>pg_now = 7, pg_uuid = (\<lambda>i. 40 + i), pg_insert_fails = (\<lambda>i. False)\<rparr>;
        failing = \<lparr>pg_now = 7, pg_uuid = (\<lambda>i. 40 + i), pg_insert_fails = (\<lambda>i. i = 1)\<rparr>;
        row = (\<lambda>k aid v. \<lparr>se_id = k, se_aggregateId = aid, se_eventType = ''StockUpdated'',
                          se_eventData = (0::int), se_metadata = (1, 1), se_version = v,
                          se_timestamp = 1\<rparr>);
        tbl = [row 11 ''a1'' 1, row 5 ''a2'' 1, row 23 ''a1'' 2, row 17 ''a2'' 2,
               row 2 ''a2'' 3];
        evs = [Event ''StockReserved'' ''a1'' (5::int) 6, Event ''StockReleased'' ''a1'' 4 6]
    in map se_version (filter (\<lambda>r. se_aggregateId r = ''a1'') tbl) = [1, 2] \<and>
       map se_version (filter (\<lambda>r. se_aggregateId r = ''a2'') tbl) = [1, 2, 3] \<and>
       saveEvents db ''a1'' evs 3 tbl = (Inl (ConcurrencyConflict 3 2), tbl) \<and>
       saveEvents db ''a1'' evs 2 tbl =
         (Inr (),
          tbl @
          [\<lparr>se_id = 40, se_aggregateId = ''a1'', se_eventType = ''StockReserved'',
            se_eventData = 5, se_metadata = (6, 1), se_version = 3, se_timestamp = 7\<rparr>,
           \<lparr>se_id = 41, se_aggregateId = ''a1'', se_eventType = ''StockReleased'',
            se_eventData = 4, se_metadata = (6, 1), se_version = 4, se_timestamp = 7\<rparr>]) \<and>
       saveEvents failing ''a1'' evs 2 tbl = (Inl StorageFailure, tbl))"
  using saveEvents_all_or_nothing
    [where aid = "''a1''" and expectedVersion = 2
       and db = "\<lparr>pg_now = 7, pg_uuid = (\<lambda>i. 40 + i), pg_insert_fails = (\<lambda>i. False)\<rparr>"
       and evs = "[Event ''StockReserved'' ''a1'' (5::int) 6, Event ''StockReleased'' ''a1'' 4 6]"
       and tbl =
         "[\<lparr>se_id = 11, se_aggregateId = ''a1'', se_eventType = ''StockUpdated'',
            se_eventData = (0::int), se_metadata = (1, 1), se_version = 1, se_timestamp = 1\<rparr>,
           \<lparr>se_id = 5, se_aggregateId = ''a2'', se_eventType = ''StockUpdated'',
            se_eventData = 0, se_metadata = (1, 1), se_version = 1, se_timestamp = 1\<rparr>,
           \<lparr>se_id = 23, se_aggregateId = ''a1'', se_eventType = ''StockUpdated'',
            se_eventData = 0, se_metadata = (1, 1), se_version = 2, se_timestamp = 1\<rparr>,
           \<lparr>se_id = 17, se_aggregateId = ''a2'', se_eventType = ''StockUpdated'',
            se_eventData = 0, se_metadata = (1, 1), se_version = 2, se_timestamp = 1\<rparr>,
           \<lparr>se_id = 2, se_aggregateId = ''a2'', se_eventType = ''StockUpdated'',
            se_eventData = 0, se_metadata = (1, 1), se_version = 3, se_timestamp = 1\<rparr>]"]
  by (simp add: Let_def saveEvents_unfold currentVersion_def insertRow_def Event_def)

lemma length_decimal: "0 < k \<Longrightarrow> n < 10 ^ k \<Longrightarrow> length (decimal n) \<le> k"
proof (induction n arbitrary: k rule: decimal.induct)
  case (1 n)
  show ?case
  proof (cases "n < 10")
    case True
    with "1.prems" show ?thesis by (simp add: decimal.simps [of n])
  next
    case False
    from "1.prems" False obtain j where k: "k = Suc j" by (cases k) auto
    with False "1.prems" have j: "0 < j" by (cases j) auto
    from "1.prems" k have "n div 10 < 10 ^ j" by (simp add: less_mult_imp_div_less mult.commute)
    from "1.IH" [OF False j this] k False show ?thesis
      by (simp add: decimal.simps [of n])
  qed
qed

lemma length_numberText: "\<bar>n\<bar> < 10 ^ 21 \<Longrightarrow> length (numberText n) \<le> 22"
proof -
  assume a: "\<bar>n\<bar> < 10 ^ 21"
  have "nat \<bar>n\<bar> < 10 ^ 21" using a by (simp add: nat_less_iff)
  then have "length (decimal (nat \<bar>n\<bar>)) \<le> 21" by (intro length_decimal) simp_all
  then show ?thesis by (auto simp: numberText_def abs_if split: if_splits)
qed

lemma length_stripBraces: "length (stripBraces s) \<le> length s"
  by (simp add: stripBraces_def)

lemma parseUuid_short: "length s < 32 \<Longrightarrow> parseUuid s = None"
proof -
  assume "length s < 32"
  moreover have "length (filter (\<lambda>c. c \<noteq> CHR ''-'') (stripBraces s)) \<le> length (stripBraces s)"
    by (rule length_filter_le)
  ultimately have "length (filter (\<lambda>c. c \<noteq> CHR ''-'') (stripBraces s)) \<noteq> 32"
    using length_stripBraces [of s] by linarith
  then show ?thesis by (simp add: parseUuid_def Let_def)
qed

lemma bindUuid_number:
  "\<bar>n\<bar> < 10 ^ 21 \<Longrightarrow> bindUuid n = Inl (DatabaseError ''invalid input syntax for type uuid'')"
  using length_numberText [of n] by (simp add: bindUuid_def parseUuid_short)

text \<open>
  C8. No page of either feed is ever returned. The cursor \<open>fromPosition\<close> is a number, the
  column it is compared with is a UUID: for every integer position below \<open>10^21\<close> in
  magnitude, the default 0 among them, the database refuses the parameter, so
  \<open>getAllEvents\<close> and \<open>getEventsByType\<close> fail with the database's error whatever the
  store holds. There is no order of the returned events and no pagination to speak of.
\<close>

theorem feeds_reject_numeric_cursor:
  "\<bar>fromPosition\<bar> < 10 ^ 21 \<longrightarrow>
     getAllEvents fromPosition limit tbl =
       Inl (DatabaseError ''invalid input syntax for type uuid'') \<and>
     getEventsByType ty fromPosition limit tbl =
       Inl (DatabaseError ''invalid input syntax for type uuid'')"
  by (simp add: getAllEvents_def getEventsByType_def bindUuid_number)

theorem feeds_reject_numeric_cursor_witness:
  "\<bar>0::int\<bar> < 10 ^ 21 \<and>
   (\<exists>t. saveEvents \<lparr>pg_now = 1, pg_uuid = (\<lambda>i. 9), pg_insert_fails = (\<lambda>i. False)\<rparr> ''a''
          [Event ''StockUpdated'' ''a'' (10::int) 1] 0 [] = (Inr (), t) \<and>
        length t = 1 \<and>
        getAllEvents 0 100 t = Inl (DatabaseError ''invalid input syntax for type uuid'') \<and>
        getEventsByType ''StockUpdated'' 0 100 t =
          Inl (DatabaseError ''invalid input syntax for type uuid''))"
  using feeds_reject_numeric_cursor [of 0]
  by (simp add: saveEvents_unfold currentVersion_def)


section \<open>Properties of the Inventory aggregate\<close>

lemmas inv_apply_defs =
  Inventory_apply_def applyInventoryItemCreated_def applyStockUpdated_def applyStockReserved_def
  applyStockReleased_def applyStockAllocated_def applyLowStockAlert_def applyOutOfStockAlert_def
  applyInventoryThresholdUpdated_def

lemmas inv_event_defs =
  InventoryItemCreated_def StockUpdated_def StockReserved_def StockReleased_def
  StockAllocated_def LowStockAlert_def OutOfStockAlert_def InventoryThresholdUpdated_def Event_def

lemmas inv_eval =
  Inventory_create_def Inventory_new_def Inventory_applyEvent_def inv_apply_defs inv_event_defs
  reservationId_def getAvailableStock_def getReservations_def Inventory_getUncommittedEvents_def
  reserveStock_def releaseStock_def allocateStock_def Let_def

lemma Inventory_apply_uncommitted:
  "inv_uncommittedEvents (Inventory_apply e s) = inv_uncommittedEvents s"
  by (simp add: inv_apply_defs Let_def split: InventoryData.splits option.splits)

lemma Inventory_apply_version:
  "inv_version (Inventory_apply e s) = inv_version s"
  by (simp add: inv_apply_defs Let_def split: InventoryData.splits option.splits)

lemma Inventory_applyEvent_uncommitted:
  "inv_uncommittedEvents (Inventory_applyEvent e s) = inv_uncommittedEvents s @ [e]"
  by (simp add: Inventory_applyEvent_def Let_def Inventory_apply_uncommitted)

lemma Inventory_applyEvent_version:
  "inv_version (Inventory_applyEvent e s) = inv_version s + 1"
  by (simp add: Inventory_applyEvent_def Let_def Inventory_apply_version)

lemma Inventory_apply_id: "inv_id (Inventory_apply e s) = inv_id s"
  by (simp add: inv_apply_defs Let_def split: InventoryData.splits option.splits)

lemma Inventory_applyEvent_id: "inv_id (Inventory_applyEvent e s) = inv_id s"
  by (simp add: Inventory_applyEvent_def Let_def Inventory_apply_id)

lemma Inventory_fold_id: "inv_id (fold Inventory_applyEvent evs s) = inv_id s"
  by (induction evs arbitrary: s) (simp_all add: Inventory_applyEvent_id)

lemma Inventory_fold_applyEvent:
  "inv_uncommittedEvents (fold Inventory_applyEvent evs s) = inv_uncommittedEvents s @ evs \<and>
   inv_version (fold Inventory_applyEvent evs s) = inv_version s + int (length evs)"
  by (induction evs arbitrary: s)
     (simp_all add: Inventory_applyEvent_uncommitted Inventory_applyEvent_version)

lemmas pay_apply_defs =
  Payment_apply_def applyPaymentRequested_def applyPaymentProcessed_def applyPaymentFailed_def
  applyPaymentRefunded_def applyPaymentCancelled_def

lemma Payment_applyEvent_uncommitted:
  "pay_uncommittedEvents (Payment_applyEvent e s) = pay_uncommittedEvents s @ [e]"
  by (simp add: Payment_applyEvent_def Let_def pay_apply_defs split: PaymentData.splits)

lemma Payment_applyEvent_version:
  "pay_version (Payment_applyEvent e s) = pay_version s + 1"
  by (simp add: Payment_applyEvent_def Let_def pay_apply_defs split: PaymentData.splits)

lemma Payment_fold_applyEvent:
  "pay_uncommittedEvents (fold Payment_applyEvent evs s) = pay_uncommittedEvents s @ evs \<and>
   pay_version (fold Payment_applyEvent evs s) = pay_version s + int (length evs)"
  by (induction evs arbitrary: s)
     (simp_all add: Payment_applyEvent_uncommitted Payment_applyEvent_version)

text \<open>The constructor of \<open>Order\<close> builds two addresses with empty fields, which the schema
  of \<open>OrderAddress\<close> rejects (\<open>street: Joi.string().min(1)\<close>): it throws for every id.\<close>

lemma Order_new_fails: "Order_new F ident now = Inl (DomainError ''Invalid order address'')"
  by (simp add: Order_new_def OrderAddress_new_def OrderAddress_schema_def blankAddress_def
      strBetween_def)

text \<open>
  C1. \<open>fromEvents\<close> replays through \<open>applyEvent\<close>, the helper of the command methods,
  which also records the event as uncommitted: the aggregate that \<open>Inventory.fromEvents\<close>
  or \<open>Payment.fromEvents\<close> returns has every replayed event in its uncommitted list (and
  the number of events as its version), so the list is empty only for an empty replay.
  \<open>Order.fromEvents\<close> returns no aggregate at all: the constructor of \<open>Order\<close> throws.
\<close>

theorem fromEvents_leaves_all_events_uncommitted:
  "Inventory_getUncommittedEvents (Inventory_fromEvents ident ievs now) = ievs \<and>
   inv_version (Inventory_fromEvents ident ievs now) = int (length ievs) \<and>
   Payment_getUncommittedEvents (Payment_fromEvents ident pevs now) = pevs \<and>
   pay_version (Payment_fromEvents ident pevs now) = int (length pevs) \<and>
   Order_fromEvents F ident oevs now = Inl (DomainError ''Invalid order address'')"
  by (simp add: Inventory_getUncommittedEvents_def Inventory_fromEvents_def
      Inventory_fold_applyEvent Inventory_new_def Payment_getUncommittedEvents_def
      Payment_fromEvents_def Payment_fold_applyEvent Payment_new_def Order_fromEvents_def
      Order_new_fails)

text \<open>
  C4. An inventory is created with stock 10; 3 units are reserved for order \<open>o1\<close>, the
  reservation is allocated in full, then released. All three commands are accepted.
  \<open>allocateStock\<close> has already taken the 3 units off \<open>reservedStock\<close> and \<open>releaseStock\<close>
  takes them off again: \<open>reservedStock\<close> ends at -3 while no reservation is left (the sum
  over the reservations that are not allocated is 0), and \<open>availableStock\<close> is 10 with a
  \<open>currentStock\<close> of 7.
\<close>

theorem release_after_allocate_breaks_reservedStock:
  "\<exists>s1 s2 s3.
     reserveStock ''o1'' 3 9 1 (Inventory_create ''i1'' ''p1'' ''sku1'' 10 2 0) = Inr s1 \<and>
     allocateStock ''o1'' 3 2 s1 = Inr s2 \<and>
     releaseStock ''o1'' ''cancelled'' 3 s2 = Inr s3 \<and>
     inv_reservedStock s3 = - 3 \<and>
     getReservations s3 = [] \<and>
     sum_list (map res_quantity (filter (\<lambda>r. \<not> res_isAllocated r) (getReservations s3))) = 0 \<and>
     inv_currentStock s3 = 7 \<and>
     getAvailableStock s3 = 10"
  by (simp add: inv_eval)

lemma checkStockAlerts_currentStock:
  "inv_currentStock (checkStockAlerts now s) = inv_currentStock s"
  by (simp add: checkStockAlerts_def Inventory_applyEvent_def Inventory_apply_def
      OutOfStockAlert_def LowStockAlert_def Event_def applyOutOfStockAlert_def
      applyLowStockAlert_def Let_def)

lemma checkStockAlerts_available:
  "getAvailableStock (checkStockAlerts now s) = getAvailableStock s"
  by (simp add: getAvailableStock_def checkStockAlerts_def Inventory_applyEvent_def
      Inventory_apply_def OutOfStockAlert_def LowStockAlert_def Event_def
      applyOutOfStockAlert_def applyLowStockAlert_def Let_def)

lemma checkStockAlerts_uncommitted:
  "inv_uncommittedEvents (checkStockAlerts now s) =
     inv_uncommittedEvents s @
       (if getAvailableStock s = 0 then [OutOfStockAlert (inv_id s) (inv_productId s) now now]
        else if getAvailableStock s \<le> inv_lowStockThreshold s then
          [LowStockAlert (inv_id s) (inv_productId s) (getAvailableStock s)
             (inv_lowStockThreshold s) now now]
        else [])"
  by (simp add: checkStockAlerts_def Let_def Inventory_applyEvent_uncommitted)

lemma StockUpdated_applied:
  "inv_currentStock (Inventory_applyEvent (StockUpdated a p old new r ct now) s) = new \<and>
   inv_reservedStock (Inventory_applyEvent (StockUpdated a p old new r ct now) s) =
     inv_reservedStock s \<and>
   inv_lowStockThreshold (Inventory_applyEvent (StockUpdated a p old new r ct now) s) =
     inv_lowStockThreshold s \<and>
   inv_id (Inventory_applyEvent (StockUpdated a p old new r ct now) s) = inv_id s \<and>
   inv_productId (Inventory_applyEvent (StockUpdated a p old new r ct now) s) = inv_productId s"
  by (simp add: Inventory_applyEvent_def Inventory_apply_def StockUpdated_def Event_def
      applyStockUpdated_def Let_def)

text \<open>
  C9. \<open>updateStock(n, reason, changeType)\<close> leaves \<open>currentStock\<close> at \<open>max(0, n)\<close> for
  \<open>'set'\<close> and at \<open>max(0, currentStock - n)\<close> for \<open>'decrement'\<close>, whatever \<open>n\<close> is; for
  \<open>'increment'\<close> it is \<open>currentStock + n\<close>, with no clamp.
\<close>

theorem updateStock_clamps_at_zero:
  "inv_currentStock (Inventory_updateStock n reason SetTo now s) = max 0 n \<and>
   inv_currentStock (Inventory_updateStock n reason Decrement now s) =
     max 0 (inv_currentStock s - n) \<and>
   0 \<le> inv_currentStock (Inventory_updateStock n reason SetTo now s) \<and>
   0 \<le> inv_currentStock (Inventory_updateStock n reason Decrement now s) \<and>
   inv_currentStock (Inventory_updateStock n reason Increment now s) = inv_currentStock s + n"
  by (simp add: Inventory_updateStock_def checkStockAlerts_currentStock StockUpdated_applied
      Let_def)

text \<open>
  C7. An inventory with stock 5 and threshold 2 accepts \<open>reserveStock('orderA', 5, ...)\<close>;
  the available stock is then 0, and the only events of the aggregate are
  \<open>InventoryItemCreated\<close> and \<open>StockReserved\<close>: no alert. On the same inventory
  \<open>updateStock(0, ..., 'set')\<close>, which also leaves an available stock of 0, does append the
  \<open>OutOfStockAlert\<close>: \<open>checkStockAlerts\<close> is called from \<open>updateStock\<close> only.
\<close>

theorem reserveStock_to_zero_appends_no_alert:
  "reserveStock ''orderA'' 5 9 1 (Inventory_create ''i1'' ''p1'' ''sku1'' 5 2 0) =
     Inr (Inventory_applyEvent (StockReserved ''i1'' ''p1'' ''orderA'' 5 1 9 1)
            (Inventory_create ''i1'' ''p1'' ''sku1'' 5 2 0)) \<and>
   getAvailableStock
     (Inventory_applyEvent (StockReserved ''i1'' ''p1'' ''orderA'' 5 1 9 1)
        (Inventory_create ''i1'' ''p1'' ''sku1'' 5 2 0)) = 0 \<and>
   map eventType
     (Inventory_getUncommittedEvents
        (Inventory_applyEvent (StockReserved ''i1'' ''p1'' ''orderA'' 5 1 9 1)
           (Inventory_create ''i1'' ''p1'' ''sku1'' 5 2 0))) =
     [''InventoryItemCreated'', ''StockReserved''] \<and>
   getAvailableStock
     (Inventory_updateStock 0 ''sold out'' SetTo 1
        (Inventory_create ''i1'' ''p1'' ''sku1'' 5 2 0)) = 0 \<and>
   map eventType
     (Inventory_getUncommittedEvents
        (Inventory_updateStock 0 ''sold out'' SetTo 1
           (Inventory_create ''i1'' ''p1'' ''sku1'' 5 2 0))) =
     [''InventoryItemCreated'', ''StockUpdated'', ''OutOfStockAlert'']"
  by (simp add: inv_eval Inventory_updateStock_def checkStockAlerts_def)

text \<open>
  What each command appends. \<open>updateStock\<close> appends, after its \<open>StockUpdated\<close> event, an
  \<open>OutOfStockAlert\<close> when the available stock that results is zero, or a \<open>LowStockAlert\<close>
  when it is positive and at most the low-stock threshold, and nothing otherwise. An
  accepted \<open>reserveStock\<close>, \<open>allocateStock\<close>, \<open>releaseStock\<close> or
  \<open>updateLowStockThreshold\<close> appends its own event and nothing else.
\<close>

theorem only_updateStock_appends_alerts:
  "(let newStockValue =
          (case ct of
             Increment \<Rightarrow> inv_currentStock s + n
           | Decrement \<Rightarrow> max 0 (inv_currentStock s - n)
           | SetTo \<Rightarrow> max 0 n);
        available = max 0 (newStockValue - inv_reservedStock s)
    in getAvailableStock (Inventory_updateStock n reason ct now s) = available \<and>
       Inventory_getUncommittedEvents (Inventory_updateStock n reason ct now s) =
         Inventory_getUncommittedEvents s @
           [StockUpdated (inv_id s) (inv_productId s) (inv_currentStock s) newStockValue
              reason ct now] @
           (if available = 0 then [OutOfStockAlert (inv_id s) (inv_productId s) now now]
            else if available \<le> inv_lowStockThreshold s then
              [LowStockAlert (inv_id s) (inv_productId s) available (inv_lowStockThreshold s)
                 now now]
            else [])) \<and>
   (\<forall>s'. reserveStock orderId q expiresAt now s = Inr s' \<longrightarrow>
      Inventory_getUncommittedEvents s' =
        Inventory_getUncommittedEvents s @
          [StockReserved (inv_id s) (inv_productId s) orderId q now expiresAt now]) \<and>
   (\<forall>s'. allocateStock orderId q now s = Inr s' \<longrightarrow>
      Inventory_getUncommittedEvents s' =
        Inventory_getUncommittedEvents s @
          [StockAllocated (inv_id s) (inv_productId s) orderId q now now]) \<and>
   (\<forall>s'. releaseStock orderId why now s = Inr s' \<longrightarrow>
      (\<exists>reservation. getReservation s orderId = Some reservation \<and>
         Inventory_getUncommittedEvents s' =
           Inventory_getUncommittedEvents s @
             [StockReleased (inv_id s) (inv_productId s) orderId (res_quantity reservation)
                now why now])) \<and>
   (\<forall>s'. updateLowStockThreshold newThreshold now s = Inr s' \<longrightarrow>
      Inventory_getUncommittedEvents s' =
        Inventory_getUncommittedEvents s @
          [InventoryThresholdUpdated (inv_id s) (inv_productId s) (inv_lowStockThreshold s)
             newThreshold now now])"
proof (intro conjI allI impI)
  let ?new = "case ct of Increment \<Rightarrow> inv_currentStock s + n
         | Decrement \<Rightarrow> max 0 (inv_currentStock s - n)
         | SetTo \<Rightarrow> max 0 n"
  let ?ev = "StockUpdated (inv_id s) (inv_productId s) (inv_currentStock s) ?new reason ct now"
  let ?s1 = "Inventory_applyEvent ?ev s"
  have upd: "Inventory_updateStock n reason ct now s = checkStockAlerts now ?s1"
    by (simp add: Inventory_updateStock_def Let_def)
  have avail1: "getAvailableStock ?s1 = max 0 (?new - inv_reservedStock s)"
    by (simp add: getAvailableStock_def StockUpdated_applied)
  show "let newStockValue = ?new;
            available = max 0 (newStockValue - inv_reservedStock s)
    in getAvailableStock (Inventory_updateStock n reason ct now s) = available \<and>
       Inventory_getUncommittedEvents (Inventory_updateStock n reason ct now s) =
         Inventory_getUncommittedEvents s @
           [StockUpdated (inv_id s) (inv_productId s) (inv_currentStock s) newStockValue
              reason ct now] @
           (if available = 0 then [OutOfStockAlert (inv_id s) (inv_productId s) now now]
            else if available \<le> inv_lowStockThreshold s then
              [LowStockAlert (inv_id s) (inv_productId s) available (inv_lowStockThreshold s)
                 now now]
            else [])"
    unfolding upd Let_def
    by (simp add: Inventory_getUncommittedEvents_def checkStockAlerts_uncommitted
        checkStockAlerts_available avail1 StockUpdated_applied Inventory_applyEvent_uncommitted)
next
  fix s' assume "reserveStock orderId q expiresAt now s = Inr s'"
  then show "Inventory_getUncommittedEvents s' =
        Inventory_getUncommittedEvents s @
          [StockReserved (inv_id s) (inv_productId s) orderId q now expiresAt now]"
    by (auto simp: reserveStock_def Inventory_getUncommittedEvents_def
        Inventory_applyEvent_uncommitted split: if_splits)
next
  fix s' assume "allocateStock orderId q now s = Inr s'"
  then show "Inventory_getUncommittedEvents s' =
        Inventory_getUncommittedEvents s @
          [StockAllocated (inv_id s) (inv_productId s) orderId q now now]"
    by (auto simp: allocateStock_def Inventory_getUncommittedEvents_def
        Inventory_applyEvent_uncommitted split: if_splits option.splits)
next
  fix s' assume "releaseStock orderId why now s = Inr s'"
  then show "\<exists>reservation. getReservation s orderId = Some reservation \<and>
         Inventory_getUncommittedEvents s' =
           Inventory_getUncommittedEvents s @
             [StockReleased (inv_id s) (inv_productId s) orderId (res_quantity reservation)
                now why now]"
    by (auto simp: releaseStock_def getReservation_def Inventory_getUncommittedEvents_def
        Inventory_applyEvent_uncommitted split: option.splits)
next
  fix s' assume "updateLowStockThreshold newThreshold now s = Inr s'"
  then show "Inventory_getUncommittedEvents s' =
        Inventory_getUncommittedEvents s @
          [InventoryThresholdUpdated (inv_id s) (inv_productId s) (inv_lowStockThreshold s)
             newThreshold now now]"
    by (auto simp: updateLowStockThreshold_def Inventory_getUncommittedEvents_def
        Inventory_applyEvent_uncommitted split: if_splits)
qed

theorem only_updateStock_appends_alerts_witness:
  "map eventType
     (Inventory_getUncommittedEvents
        (Inventory_updateStock 0 ''sold out'' SetTo 1
           (Inventory_create ''i1'' ''p1'' ''sku1'' 5 2 0))) =
     [''InventoryItemCreated'', ''StockUpdated'', ''OutOfStockAlert''] \<and>
   map eventType
     (Inventory_getUncommittedEvents
        (Inventory_updateStock 3 ''sale'' Decrement 1
           (Inventory_create ''i1'' ''p1'' ''sku1'' 5 2 0))) =
     [''InventoryItemCreated'', ''StockUpdated'', ''LowStockAlert''] \<and>
   reserveStock ''orderA'' 5 9 1 (Inventory_create ''i1'' ''p1'' ''sku1'' 5 2 0) =
     Inr (Inventory_applyEvent (StockReserved ''i1'' ''p1'' ''orderA'' 5 1 9 1)
            (Inventory_create ''i1'' ''p1'' ''sku1'' 5 2 0)) \<and>
   Inventory_getUncommittedEvents
     (Inventory_applyEvent (StockReserved ''i1'' ''p1'' ''orderA'' 5 1 9 1)
        (Inventory_create ''i1'' ''p1'' ''sku1'' 5 2 0)) =
     Inventory_getUncommittedEvents (Inventory_create ''i1'' ''p1'' ''sku1'' 5 2 0) @
       [StockReserved ''i1'' ''p1'' ''orderA'' 5 1 9 1] \<and>
   updateLowStockThreshold 7 1 (Inventory_create ''i1'' ''p1'' ''sku1'' 5 2 0) =
     Inr (Inventory_applyEvent (InventoryThresholdUpdated ''i1'' ''p1'' 2 7 1 1)
            (Inventory_create ''i1'' ''p1'' ''sku1'' 5 2 0)) \<and>
   getAvailableStock
     (Inventory_applyEvent (InventoryThresholdUpdated ''i1'' ''p1'' 2 7 1 1)
        (Inventory_create ''i1'' ''p1'' ''sku1'' 5 2 0)) = 5 \<and>
   map eventType
     (Inventory_getUncommittedEvents
        (Inventory_applyEvent (InventoryThresholdUpdated ''i1'' ''p1'' 2 7 1 1)
           (Inventory_create ''i1'' ''p1'' ''sku1'' 5 2 0))) =
     [''InventoryItemCreated'', ''InventoryThresholdUpdated''] \<and>
   releaseStock ''orderA'' ''cancelled'' 2
     (Inventory_applyEvent (StockReserved ''i1'' ''p1'' ''orderA'' 5 1 9 1)
        (Inventory_create ''i1'' ''p1'' ''sku1'' 5 2 0)) =
     Inr (Inventory_applyEvent (StockReleased ''i1'' ''p1'' ''orderA'' 5 2 ''cancelled'' 2)
            (Inventory_applyEvent (StockReserved ''i1'' ''p1'' ''orderA'' 5 1 9 1)
               (Inventory_create ''i1'' ''p1'' ''sku1'' 5 2 0))) \<and>
   map eventType
     (Inventory_getUncommittedEvents
        (Inventory_applyEvent (StockReleased ''i1'' ''p1'' ''orderA'' 5 2 ''cancelled'' 2)
           (Inventory_applyEvent (StockReserved ''i1'' ''p1'' ''orderA'' 5 1 9 1)
              (Inventory_create ''i1'' ''p1'' ''sku1'' 5 2 0)))) =
     [''InventoryItemCreated'', ''StockReserved'', ''StockReleased'']"
  using only_updateStock_appends_alerts
    [where s = "Inventory_create ''i1'' ''p1'' ''sku1'' 5 2 0" and orderId = "''orderA''"
       and q = 5 and expiresAt = 9 and now = 1 and ct = SetTo and n = 0
       and reason = "''sold out''" and newThreshold = 7 and why = "''cancelled''"]
  by (simp add: inv_eval Inventory_updateStock_def checkStockAlerts_def
      updateLowStockThreshold_def)

lemma Inventory_new_keyed: "reservationsKeyed (Inventory_new ident now)"
  by (simp add: reservationsKeyed_def Inventory_new_def)

lemma list_all_update:
  "list_all P ps \<Longrightarrow> P (k, v) \<Longrightarrow> list_all P (AList.update k v ps)"
  by (induction ps) auto

lemma list_all_delete:
  "list_all P ps \<Longrightarrow> list_all P (AList.delete k ps)"
  by (induction ps) auto

lemma keyed_update:
  assumes "distinct (map fst ps)" "list_all (\<lambda>(k, r). k = pre @ res_orderId r) ps"
    and "k = pre @ res_orderId v"
  shows "distinct (map fst (AList.update k v ps)) \<and>
         list_all (\<lambda>(k, r). k = pre @ res_orderId r) (AList.update k v ps)"
  using assms by (simp add: distinct_update list_all_update)

lemma keyed_delete:
  assumes "distinct (map fst ps)" "list_all (\<lambda>(k, r). k = pre @ res_orderId r) ps"
  shows "distinct (map fst (AList.delete k ps)) \<and>
         list_all (\<lambda>(k, r). k = pre @ res_orderId r) (AList.delete k ps)"
  using assms by (simp add: distinct_delete list_all_delete)

lemma keyed_lookup:
  assumes "list_all (\<lambda>(k, r). k = pre @ res_orderId r) ps" "map_of ps k = Some r"
  shows "k = pre @ res_orderId r"
  using assms by (induction ps) (auto split: if_splits)

lemma Inventory_apply_keyed:
  assumes "reservationsKeyed s"
  shows "reservationsKeyed (Inventory_apply e s)"
proof (cases "data e")
  case (StockReservedData p oid q ra ea)
  with assms show ?thesis
    using keyed_update [of "inv_reservations s" "inv_id s @ ''-''" "inv_id s @ ''-'' @ oid"
        "\<lparr>res_id = inv_id s @ ''-'' @ oid, res_orderId = oid, res_quantity = q,
          res_reservedAt = ra, res_expiresAt = ea, res_isAllocated = False\<rparr>"]
    by (simp add: reservationsKeyed_def inv_apply_defs reservationId_def Let_def)
next
  case (StockReleasedData p oid q ra reason)
  with assms show ?thesis
    using keyed_delete [of "inv_reservations s" "inv_id s @ ''-''" "inv_id s @ ''-'' @ oid"]
    by (simp add: reservationsKeyed_def inv_apply_defs reservationId_def Let_def
        split: option.splits)
next
  case (StockAllocatedData p oid q at)
  show ?thesis
  proof (cases "map_of (inv_reservations s) (inv_id s @ ''-'' @ oid)")
    case None
    with assms StockAllocatedData show ?thesis
      by (simp add: reservationsKeyed_def inv_apply_defs reservationId_def Let_def)
  next
    case (Some r)
    from assms have k: "list_all (\<lambda>(k, r). k = (inv_id s @ ''-'') @ res_orderId r) (inv_reservations s)"
      and d: "distinct (map fst (inv_reservations s))"
      by (simp_all add: reservationsKeyed_def reservationId_def)
    from keyed_lookup [OF k Some] have "oid = res_orderId r" by simp
    then have "inv_id s @ ''-'' @ oid = (inv_id s @ ''-'') @ res_orderId (r\<lparr>res_isAllocated := True\<rparr>)"
      by simp
    from keyed_update [OF d k this] Some StockAllocatedData show ?thesis
      by (simp add: reservationsKeyed_def inv_apply_defs reservationId_def Let_def)
  qed
qed (use assms in \<open>simp_all add: reservationsKeyed_def inv_apply_defs reservationId_def\<close>)

lemma Inventory_applyEvent_keyed:
  "reservationsKeyed s \<Longrightarrow> reservationsKeyed (Inventory_applyEvent e s)"
  using Inventory_apply_keyed [of s e]
  by (simp add: Inventory_applyEvent_def Let_def reservationsKeyed_def reservationId_def)

lemma filter_update_keyed:
  assumes "distinct (map fst ps)" "list_all (\<lambda>(k, r). k = pre @ res_orderId r) ps"
    and "res_orderId v = oid"
  shows "filter (\<lambda>r. res_orderId r = oid) (map snd (AList.update (pre @ oid) v ps)) = [v]"
  using assms
proof (induction ps)
  case Nil
  then show ?case by simp
next
  case (Cons a ps)
  obtain k r where a: "a = (k, r)" by (cases a)
  show ?case
  proof (cases "k = pre @ oid")
    case True
    have "filter (\<lambda>r. res_orderId r = oid) (map snd ps) = []"
    proof -
      have "\<forall>x \<in> set ps. res_orderId (snd x) \<noteq> oid"
      proof
        fix x assume x: "x \<in> set ps"
        with Cons.prems(2) have "fst x = pre @ res_orderId (snd x)"
          by (auto simp: list_all_iff)
        moreover from x Cons.prems(1) a have "fst x \<noteq> k" by force
        ultimately show "res_orderId (snd x) \<noteq> oid" using True by auto
      qed
      then show ?thesis by (auto simp: filter_empty_conv)
    qed
    with True a Cons.prems(3) show ?thesis by simp
  next
    case False
    with Cons.prems(2) a have "res_orderId r \<noteq> oid" by auto
    with False a Cons show ?thesis by simp
  qed
qed

text \<open>
  C10, as the claim states it, fails for a quantity that is not positive: an inventory that
  holds a reservation of 3 for order \<open>o1\<close> has an available stock of at least 0, yet
  \<open>reserveStock('o1', 0, ...)\<close> is rejected.
\<close>

theorem zero_quantity_reservation_rejected:
  "reserveStock ''o1'' 3 9 1 (Inventory_create ''i1'' ''p1'' ''sku1'' 10 2 0) =
     Inr (Inventory_applyEvent (StockReserved ''i1'' ''p1'' ''o1'' 3 1 9 1)
            (Inventory_create ''i1'' ''p1'' ''sku1'' 10 2 0)) \<and>
   0 \<le> getAvailableStock
         (Inventory_applyEvent (StockReserved ''i1'' ''p1'' ''o1'' 3 1 9 1)
            (Inventory_create ''i1'' ''p1'' ''sku1'' 10 2 0)) \<and>
   reserveStock ''o1'' 0 9 2
     (Inventory_applyEvent (StockReserved ''i1'' ''p1'' ''o1'' 3 1 9 1)
        (Inventory_create ''i1'' ''p1'' ''sku1'' 10 2 0)) =
     Inl (DomainError ''Reservation quantity must be greater than zero'')"
  by (simp add: inv_eval)

text \<open>
  C10, amended. An inventory accepts \<open>reserveStock(orderId, q1, ...)\<close>; a second
  \<open>reserveStock(orderId, q2, ...)\<close> for the same order is accepted whenever \<open>q2\<close> is
  positive and at most the available stock. Afterwards the reservations hold exactly one
  reservation of that order, the second one, with quantity \<open>q2\<close> under the key made of the
  inventory's id and the order's id, and \<open>reservedStock\<close> has grown by \<open>q1 + q2\<close> over the
  two calls.
\<close>

theorem second_reservation_replaces_first:
  assumes "reservationsKeyed s0"
    and "reserveStock oid q1 e1 t1 s0 = Inr s1"
    and "0 < q2" and "q2 \<le> getAvailableStock s1"
  shows "\<exists>s2. reserveStock oid q2 e2 t2 s1 = Inr s2 \<and>
           getReservation s1 oid =
             Some \<lparr>res_id = inv_id s0 @ ''-'' @ oid, res_orderId = oid, res_quantity = q1,
                   res_reservedAt = t1, res_expiresAt = e1, res_isAllocated = False\<rparr> \<and>
           filter (\<lambda>r. res_orderId r = oid) (getReservations s2) =
             [\<lparr>res_id = inv_id s0 @ ''-'' @ oid, res_orderId = oid, res_quantity = q2,
               res_reservedAt = t2, res_expiresAt = e2, res_isAllocated = False\<rparr>] \<and>
           getReservation s2 oid =
             Some \<lparr>res_id = inv_id s0 @ ''-'' @ oid, res_orderId = oid, res_quantity = q2,
                   res_reservedAt = t2, res_expiresAt = e2, res_isAllocated = False\<rparr> \<and>
           inv_reservedStock s2 = inv_reservedStock s0 + q1 + q2"
proof -
  let ?ev1 = "StockReserved (inv_id s0) (inv_productId s0) oid q1 t1 e1 t1"
  from assms(2) have s1: "s1 = Inventory_applyEvent ?ev1 s0"
    by (auto simp: reserveStock_def split: if_splits)
  have k1: "reservationsKeyed s1"
    unfolding s1 by (rule Inventory_applyEvent_keyed [OF assms(1)])
  have id1: "inv_id s1 = inv_id s0" and rs1: "inv_reservedStock s1 = inv_reservedStock s0 + q1"
    and pid1: "inv_productId s1 = inv_productId s0"
    by (simp_all add: s1 Inventory_applyEvent_def inv_apply_defs inv_event_defs Let_def)
  have g1: "getReservation s1 oid =
             Some \<lparr>res_id = inv_id s0 @ ''-'' @ oid, res_orderId = oid, res_quantity = q1,
                   res_reservedAt = t1, res_expiresAt = e1, res_isAllocated = False\<rparr>"
    by (simp add: s1 getReservation_def Inventory_applyEvent_def inv_apply_defs inv_event_defs
        reservationId_def Let_def update_conv')
  let ?ev2 = "StockReserved (inv_id s1) (inv_productId s1) oid q2 t2 e2 t2"
  let ?s2 = "Inventory_applyEvent ?ev2 s1"
  let ?r2 = "\<lparr>res_id = inv_id s0 @ ''-'' @ oid, res_orderId = oid, res_quantity = q2,
               res_reservedAt = t2, res_expiresAt = e2, res_isAllocated = False\<rparr>"
  from assms(3,4) have r: "reserveStock oid q2 e2 t2 s1 = Inr ?s2"
    by (simp add: reserveStock_def)
  have res2: "inv_reservations ?s2 = AList.update ((inv_id s0 @ ''-'') @ oid) ?r2 (inv_reservations s1)"
    by (simp add: Inventory_applyEvent_def inv_apply_defs inv_event_defs reservationId_def
        Let_def id1)
  from k1 have d: "distinct (map fst (inv_reservations s1))"
    and k: "list_all (\<lambda>(k, r). k = (inv_id s0 @ ''-'') @ res_orderId r) (inv_reservations s1)"
    by (simp_all add: reservationsKeyed_def reservationId_def id1)
  have f: "filter (\<lambda>r. res_orderId r = oid) (getReservations ?s2) = [?r2]"
    unfolding getReservations_def res2
    by (rule filter_update_keyed [OF d k]) simp
  have g2: "getReservation ?s2 oid = Some ?r2"
    by (simp add: getReservation_def Inventory_applyEvent_def inv_apply_defs inv_event_defs
        reservationId_def Let_def update_conv' id1)
  have rs2: "inv_reservedStock ?s2 = inv_reservedStock s0 + q1 + q2"
    by (simp add: Inventory_applyEvent_def inv_apply_defs inv_event_defs Let_def rs1)
  from r g1 f g2 rs2 show ?thesis by blast
qed

theorem second_reservation_replaces_first_witness:
  "reservationsKeyed (Inventory_create ''i1'' ''p1'' ''sku1'' 10 2 0) \<and>
   reserveStock ''o1'' 3 9 1 (Inventory_create ''i1'' ''p1'' ''sku1'' 10 2 0) =
     Inr (Inventory_applyEvent (StockReserved ''i1'' ''p1'' ''o1'' 3 1 9 1)
            (Inventory_create ''i1'' ''p1'' ''sku1'' 10 2 0)) \<and>
   (4::int) \<le> getAvailableStock
         (Inventory_applyEvent (StockReserved ''i1'' ''p1'' ''o1'' 3 1 9 1)
            (Inventory_create ''i1'' ''p1'' ''sku1'' 10 2 0)) \<and>
   (\<exists>s2. reserveStock ''o1'' 4 8 2
           (Inventory_applyEvent (StockReserved ''i1'' ''p1'' ''o1'' 3 1 9 1)
              (Inventory_create ''i1'' ''p1'' ''sku1'' 10 2 0)) = Inr s2 \<and>
         map res_quantity (getReservations s2) = [4] \<and>
         inv_reservedStock s2 = 7)"
proof -
  let ?s0 = "Inventory_create ''i1'' ''p1'' ''sku1'' 10 2 0"
  let ?s1 = "Inventory_applyEvent (StockReserved ''i1'' ''p1'' ''o1'' 3 1 9 1) ?s0"
  have k: "reservationsKeyed ?s0"
    unfolding Inventory_create_def by (rule Inventory_applyEvent_keyed [OF Inventory_new_keyed])
  have r: "reserveStock ''o1'' 3 9 1 ?s0 = Inr ?s1"
    by (simp add: inv_eval)
  have a: "(4::int) \<le> getAvailableStock ?s1"
    by (simp add: inv_eval)
  from second_reservation_replaces_first [OF k r _ a, of 8 2]
  obtain s2 where s2: "reserveStock ''o1'' 4 8 2 ?s1 = Inr s2"
    and "inv_reservedStock s2 = inv_reservedStock ?s0 + 3 + 4"
    by auto
  moreover have "inv_reservedStock ?s0 = 0"
    by (simp add: inv_eval)
  moreover from s2 have "map res_quantity (getReservations s2) = [4]"
    by (auto simp: inv_eval)
  ultimately show ?thesis using k r a by auto
qed


section \<open>Properties of the repositories\<close>

text \<open>
  C3, as the claim states it, fails: a new inventory, with its creation event uncommitted,
  is saved to an empty store. The save succeeds, and the creation event is still in the
  aggregate's uncommitted list afterwards.
\<close>

theorem save_keeps_events_uncommitted_counterexample:
  "fst (InventoryRepository_save
          \<lparr>pg_now = 1, pg_uuid = (\<lambda>i. 7 + i), pg_insert_fails = (\<lambda>i. False)\<rparr>
          (Inventory_create ''i1'' ''p1'' ''sku1'' 5 2 0) []) = Inr () \<and>
   Inventory_getUncommittedEvents
     (fst (snd (InventoryRepository_save
          \<lparr>pg_now = 1, pg_uuid = (\<lambda>i. 7 + i), pg_insert_fails = (\<lambda>i. False)\<rparr>
          (Inventory_create ''i1'' ''p1'' ''sku1'' 5 2 0) []))) =
     [InventoryItemCreated ''i1'' ''p1'' ''sku1'' 5 2 0 0]"
  by (simp add: InventoryRepository_save_def saveEvents_unfold currentVersion_def inv_eval)

text \<open>
  C3, amended. For an order or an inventory with at least one uncommitted event, \<open>save\<close>
  calls \<open>saveEvents\<close> with the aggregate's id, its uncommitted events and the expected
  version \<open>version - count\<close>, returns what \<open>saveEvents\<close> returns and leaves the aggregate
  as it was (the uncommitted list is cleared later, by the command handler). The product
  repository's \<open>save\<close> calls \<open>markEventsAsCommitted\<close> itself: whenever it returns
  normally, the product's uncommitted list is empty.
\<close>

theorem repository_save_calls_saveEvents:
  "(Order_getUncommittedEvents order \<noteq> [] \<longrightarrow>
      OrderRepository_save db order otbl =
        (fst (saveEvents db (ord_id order) (Order_getUncommittedEvents order)
                (ord_version order - int (length (Order_getUncommittedEvents order))) otbl),
         order,
         snd (saveEvents db (ord_id order) (Order_getUncommittedEvents order)
                (ord_version order - int (length (Order_getUncommittedEvents order))) otbl))) \<and>
   (Inventory_getUncommittedEvents inventory \<noteq> [] \<longrightarrow>
      InventoryRepository_save db inventory itbl =
        (fst (saveEvents db (inv_id inventory) (Inventory_getUncommittedEvents inventory)
                (inv_version inventory - int (length (Inventory_getUncommittedEvents inventory)))
                itbl),
         inventory,
         snd (saveEvents db (inv_id inventory) (Inventory_getUncommittedEvents inventory)
                (inv_version inventory - int (length (Inventory_getUncommittedEvents inventory)))
                itbl))) \<and>
   (fst (ProductRepository_save db product ptbl) = Inr () \<longrightarrow>
      Product_getUncommittedEvents (fst (snd (ProductRepository_save db product ptbl))) = [])"
proof (intro conjI impI)
  assume "Order_getUncommittedEvents order \<noteq> []"
  then show "OrderRepository_save db order otbl =
        (fst (saveEvents db (ord_id order) (Order_getUncommittedEvents order)
                (ord_version order - int (length (Order_getUncommittedEvents order))) otbl),
         order,
         snd (saveEvents db (ord_id order) (Order_getUncommittedEvents order)
                (ord_version order - int (length (Order_getUncommittedEvents order))) otbl))"
    by (simp add: OrderRepository_save_def Let_def split: prod.splits)
next
  assume "Inventory_getUncommittedEvents inventory \<noteq> []"
  then show "InventoryRepository_save db inventory itbl =
        (fst (saveEvents db (inv_id inventory) (Inventory_getUncommittedEvents inventory)
                (inv_version inventory - int (length (Inventory_getUncommittedEvents inventory)))
                itbl),
         inventory,
         snd (saveEvents db (inv_id inventory) (Inventory_getUncommittedEvents inventory)
                (inv_version inventory - int (length (Inventory_getUncommittedEvents inventory)))
                itbl))"
    by (simp add: InventoryRepository_save_def Let_def split: prod.splits)
next
  assume "fst (ProductRepository_save db product ptbl) = Inr ()"
  then show "Product_getUncommittedEvents (fst (snd (ProductRepository_save db product ptbl))) = []"
    by (auto simp: ProductRepository_save_def Let_def Product_getUncommittedEvents_def
        Product_markEventsAsCommitted_def split: prod.splits sum.splits if_splits)
qed

theorem repository_save_calls_saveEvents_witness:
  "(let db = \<lparr>pg_now = 1, pg_uuid = (\<lambda>i. 7 + i), pg_insert_fails = (\<lambda>i. False)\<rparr>;
        address = \<lparr>addr_street = ''1 Main St'', addr_city = ''Springfield'',
                   addr_state = ''IL'', addr_zipCode = ''62701'', addr_country = ''US'',
                   addr_phone = None, addr_email = None\<rparr>;
        order = \<lparr>ord_id = ''o1'', ord_userId = ''u1'', ord_items = [], ord_totalAmount = 0,
                 ord_currency = ''USD'', ord_status = ''confirmed'',
                 ord_shippingAddress = address, ord_billingAddress = address,
                 ord_paymentMethod = ''card'', ord_paymentId = None,
                 ord_trackingNumber = None, ord_carrier = None, ord_createdAt = 0,
                 ord_updatedAt = 1, ord_confirmedAt = Some 1, ord_paidAt = None,
                 ord_shippedAt = None, ord_deliveredAt = None, ord_cancelledAt = None,
                 ord_refundedAt = None, ord_version = 1,
                 ord_uncommittedEvents = [OrderConfirmed ''o1'' 1 ''admin1'' 1]\<rparr>;
        inventory = Inventory_create ''i1'' ''p1'' ''sku1'' 5 2 0;
        product = \<lparr>prod_id = ''p1'', prod_name = ''Lamp'', prod_description = ''Desk lamp'',
                   prod_price = usd 10, prod_categoryId = ''c1'', prod_sku = ''S1'',
                   prod_images = [], prod_attributes = [], prod_isActive = True,
                   prod_stock = 4, prod_createdAt = 0, prod_updatedAt = 1,
                   prod_discontinuedAt = None, prod_version = 1,
                   prod_uncommittedEvents =
                     [Event ''ProductStockUpdated'' ''p1'' (ProductStockUpdatedData 0 4 ''in'') 1]\<rparr>;
        ptbl = [\<lparr>se_id = 1, se_aggregateId = ''p1'', se_eventType = ''ProductStockUpdated'',
                 se_eventData = ProductStockUpdatedData 0 4 ''in'', se_metadata = (1, 1),
                 se_version = 1, se_timestamp = 1\<rparr>]
    in Order_getUncommittedEvents order \<noteq> [] \<and>
       fst (OrderRepository_save db order []) = Inr () \<and>
       fst (snd (OrderRepository_save db order [])) = order \<and>
       map se_version (snd (snd (OrderRepository_save db order []))) = [1] \<and>
       Inventory_getUncommittedEvents inventory \<noteq> [] \<and>
       fst (InventoryRepository_save db inventory []) = Inr () \<and>
       fst (snd (InventoryRepository_save db inventory [])) = inventory \<and>
       map se_version (snd (snd (InventoryRepository_save db inventory []))) = [1] \<and>
       Product_getUncommittedEvents product \<noteq> [] \<and>
       fst (ProductRepository_save db product ptbl) = Inr () \<and>
       Product_getUncommittedEvents (fst (snd (ProductRepository_save db product ptbl))) = [])"
  using repository_save_calls_saveEvents
    [where db = "\<lparr>pg_now = 1, pg_uuid = (\<lambda>i. 7 + i), pg_insert_fails = (\<lambda>i. False)\<rparr>"
       and inventory = "Inventory_create ''i1'' ''p1'' ''sku1'' 5 2 0" and itbl = "[]"]
  by (simp add: Let_def OrderRepository_save_def InventoryRepository_save_def
      ProductRepository_save_def Order_getUncommittedEvents_def Product_getUncommittedEvents_def
      Product_markEventsAsCommitted_def OrderConfirmed_def saveEvents_unfold currentVersion_def
      insertRow_def inv_eval)


section \<open>Properties of the Product aggregate\<close>


lemma Product_new_fails: "Product_new ident now = Inl (DomainError ''Invalid product price'')"
  by (simp add: Product_new_def ProductPrice_new_def ProductPrice_schema_def usd_def)



section \<open>Properties of the Order aggregate\<close>

text \<open>
  C6. The scenario cannot start: \<open>Order.create\<close> first runs the constructor of \<open>Order\<close>,
  which throws \<open>Invalid order address\<close> for every id, so no order is created, whatever the
  items and addresses are; the same holds when the order is created through the command
  handler's \<open>createOrder\<close> with the single item of the scenario.
\<close>

theorem Order_create_always_throws:
  "Order_create F ident userId items shippingAddress billingAddress paymentMethod now =
     Inl (DomainError ''Invalid order address'') \<and>
   createOrder F ident ''u1''
     [\<lparr>coi_productId = ''p1'', coi_quantity = 2, coi_price = 10, coi_sku = ''S1'',
       coi_name = ''Lamp''\<rparr>]
     shippingAddress billingAddress paymentMethod currency now =
     Inl (DomainError ''Invalid order address'')"
  by (simp add: createOrder_def Order_create_def Order_new_fails)

section \<open>Further properties\<close>

text \<open>The constructor of \<open>Order\<close> throws for every id: the two blank addresses it builds
  do not pass the schema of \<open>OrderAddress\<close>.\<close>

theorem Order_constructor_always_throws:
  "Order_new F ident now = Inl (DomainError ''Invalid order address'')"
  by (rule Order_new_fails)

text \<open>\<open>applyOrderCreated\<close> throws whenever the event has an item: it builds every
  \<open>OrderItem\<close> with the name \<open>''\<close>, which the schema of \<open>OrderItem\<close> rejects.\<close>

lemma addItems_fails:
  "items \<noteq> [] \<Longrightarrow> addItems F items s = Inl (DomainError ''Invalid order item'')"
  by (cases items)
     (simp_all add: OrderItem_new_def OrderItem_schema_def strBetween_def)

theorem applyOrderCreated_rejects_items:
  assumes "items \<noteq> []"
  shows "\<exists>err. applyOrderCreated F userId items totalAmount currency shippingAddress
                 billingAddress paymentMethod ts s = Inl err"
  using assms
  by (auto simp: applyOrderCreated_def addItems_fails split: sum.splits)

theorem applyOrderCreated_rejects_items_witness:
  "[\<lparr>oci_productId = ''p1'', oci_quantity = 2, oci_price = 10, oci_sku = ''S1''\<rparr>] \<noteq> [] \<and>
   (let address = \<lparr>addr_street = ''1 Main St'', addr_city = ''Springfield'',
                   addr_state = ''IL'', addr_zipCode = ''62701'', addr_country = ''US'',
                   addr_phone = None, addr_email = None\<rparr>;
        order = \<lparr>ord_id = ''o1'', ord_userId = [], ord_items = [], ord_totalAmount = 0,
                 ord_currency = ''USD'', ord_status = ''pending'',
                 ord_shippingAddress = address, ord_billingAddress = address,
                 ord_paymentMethod = [], ord_paymentId = None,
                 ord_trackingNumber = None, ord_carrier = None, ord_createdAt = 0,
                 ord_updatedAt = 0, ord_confirmedAt = None, ord_paidAt = None,
                 ord_shippedAt = None, ord_deliveredAt = None, ord_cancelledAt = None,
                 ord_refundedAt = None, ord_version = 0, ord_uncommittedEvents = []\<rparr>
    in applyOrderCreated \<lparr>isGuid = (\<lambda>s. True), isEmail = (\<lambda>s. True)\<rparr> ''u1''
         [\<lparr>oci_productId = ''p1'', oci_quantity = 2, oci_price = 10, oci_sku = ''S1''\<rparr>]
         20 ''USD'' address address ''card'' 1 order =
       Inl (DomainError ''Invalid order item''))"
  using applyOrderCreated_rejects_items
    [where items = "[\<lparr>oci_productId = ''p1'', oci_quantity = 2, oci_price = 10, oci_sku = ''S1''\<rparr>]"]
  by (simp add: Let_def applyOrderCreated_def OrderAddress_new_def OrderAddress_schema_def
      OrderItem_new_def OrderItem_schema_def strBetween_def)

text \<open>
  On an order object whose status is none of cancelled, delivered and refunded, \<open>cancel\<close>
  is accepted: the status becomes \<open>'cancelled'\<close>, the version grows by one and an
  \<open>OrderCancelled\<close> event is recorded. A \<open>confirm\<close> that follows raises a domain error
  and so leaves the order, its version included, as it was.
\<close>

lemmas ord_apply_defs =
  Order_applyEvent_def Order_apply_def applyOrderCancelled_def applyOrderConfirmed_def
  OrderCancelled_def OrderConfirmed_def Event_def

theorem cancel_then_confirm:
  assumes "ord_status s \<notin> {''cancelled'', ''delivered'', ''refunded''}"
  shows "\<exists>s'. Order_cancel F cancelledBy reason refundAmount now s = Inr s' \<and>
           ord_status s' = ''cancelled'' \<and>
           ord_version s' = ord_version s + 1 \<and>
           Order_getUncommittedEvents s' =
             Order_getUncommittedEvents s @
               [OrderCancelled (ord_id s) now cancelledBy reason refundAmount now] \<and>
           Order_confirm F confirmedBy later s' =
             Inl (DomainError ''Order can only be confirmed when in pending status'')"
  using assms
  by (simp add: Order_cancel_def Order_confirm_def Order_getUncommittedEvents_def ord_apply_defs)

theorem cancel_then_confirm_witness:
  "(let address = \<lparr>addr_street = ''1 Main St'', addr_city = ''Springfield'',
                   addr_state = ''IL'', addr_zipCode = ''62701'', addr_country = ''US'',
                   addr_phone = None, addr_email = None\<rparr>;
        order = \<lparr>ord_id = ''o1'', ord_userId = ''u1'', ord_items = [], ord_totalAmount = 20,
                 ord_currency = ''USD'', ord_status = ''pending'',
                 ord_shippingAddress = address, ord_billingAddress = address,
                 ord_paymentMethod = ''card'', ord_paymentId = None,
                 ord_trackingNumber = None, ord_carrier = None, ord_createdAt = 0,
                 ord_updatedAt = 0, ord_confirmedAt = None, ord_paidAt = None,
                 ord_shippedAt = None, ord_deliveredAt = None, ord_cancelledAt = None,
                 ord_refundedAt = None, ord_version = 1, ord_uncommittedEvents = []\<rparr>;
        F = \<lparr>isGuid = (\<lambda>s. True), isEmail = (\<lambda>s. True)\<rparr>
    in ord_status order \<notin> {''cancelled'', ''delivered'', ''refunded''} \<and>
       (\<exists>s'. Order_cancel F ''admin1'' ''out of stock'' None 1 order = Inr s' \<and>
             ord_status s' = ''cancelled'' \<and> ord_version s' = 2 \<and>
             Order_confirm F ''admin1'' 2 s' =
               Inl (DomainError ''Order can only be confirmed when in pending status'')))"
  using cancel_then_confirm
    [where F = "\<lparr>isGuid = (\<lambda>s. True), isEmail = (\<lambda>s. True)\<rparr>" and now = 1 and later = 2
       and cancelledBy = "''admin1''" and confirmedBy = "''admin1''"
       and reason = "''out of stock''" and refundAmount = None
       and s = "\<lparr>ord_id = ''o1'', ord_userId = ''u1'', ord_items = [], ord_totalAmount = 20,
                 ord_currency = ''USD'', ord_status = ''pending'',
                 ord_shippingAddress = \<lparr>addr_street = ''1 Main St'', addr_city = ''Springfield'',
                   addr_state = ''IL'', addr_zipCode = ''62701'', addr_country = ''US'',
                   addr_phone = None, addr_email = None\<rparr>,
                 ord_billingAddress = \<lparr>addr_street = ''1 Main St'', addr_city = ''Springfield'',
                   addr_state = ''IL'', addr_zipCode = ''62701'', addr_country = ''US'',
                   addr_phone = None, addr_email = None\<rparr>,
                 ord_paymentMethod = ''card'', ord_paymentId = None,
                 ord_trackingNumber = None, ord_carrier = None, ord_createdAt = 0,
                 ord_updatedAt = 0, ord_confirmedAt = None, ord_paidAt = None,
                 ord_shippedAt = None, ord_deliveredAt = None, ord_cancelledAt = None,
                 ord_refundedAt = None, ord_version = 1, ord_uncommittedEvents = []\<rparr>"]
  by (simp add: Let_def Order_cancel_def Order_confirm_def ord_apply_defs)

text \<open>The constructor of \<open>Product\<close> throws for every id: the price it starts from has
  amount 0, and the schema of \<open>ProductPrice\<close> asks for a positive amount. So
  \<open>Product.create\<close> and \<open>Product.fromEvents\<close> throw as well.\<close>

theorem Product_constructor_always_throws:
  "Product_new ident now = Inl (DomainError ''Invalid product price'') \<and>
   Product_create ident name description price categoryId sku images attributes now =
     Inl (DomainError ''Invalid product price'') \<and>
   Product_fromEvents ident evs now = Inl (DomainError ''Invalid product price'')"
  by (simp add: Product_create_def Product_fromEvents_def Product_new_fails)

text \<open>Every inventory that \<open>fromEvents\<close> returns has its reservations keyed by the
  aggregate's id and the order's id, one entry for each key.\<close>

lemma Inventory_fold_keyed:
  "reservationsKeyed s \<Longrightarrow> reservationsKeyed (fold Inventory_applyEvent evs s)"
  by (induction evs arbitrary: s) (simp_all add: Inventory_applyEvent_keyed)

theorem replayed_inventory_is_keyed:
  "reservationsKeyed (Inventory_fromEvents ident evs now)"
  unfolding Inventory_fromEvents_def by (rule Inventory_fold_keyed [OF Inventory_new_keyed])

text \<open>
  An inventory is loaded with \<open>fromEvents\<close> from its persisted stream of one or more
  events and accepts \<open>reserveStock\<close>. Saving it fails with a concurrency conflict: all the
  replayed events count as uncommitted, so the expected version that \<open>save\<close> computes is 0
  while the store holds the stream.
\<close>

theorem replayed_inventory_cannot_be_saved:
  assumes "evs \<noteq> []"
    and "currentVersion ident tbl = int (length evs)"
    and "reserveStock oid q e t (Inventory_fromEvents ident evs now) = Inr s"
  shows "InventoryRepository_save db s tbl =
           (Inl (ConcurrencyConflict 0 (int (length evs))), s, tbl)"
proof -
  let ?s0 = "Inventory_fromEvents ident evs now"
  from assms(3) obtain ev where s: "s = Inventory_applyEvent ev ?s0"
    by (auto simp: reserveStock_def split: if_splits)
  have u: "inv_uncommittedEvents s = evs @ [ev]"
    by (simp add: s Inventory_applyEvent_uncommitted Inventory_fromEvents_def
        Inventory_fold_applyEvent Inventory_new_def)
  have v: "inv_version s = int (length evs) + 1"
    by (simp add: s Inventory_applyEvent_version Inventory_fromEvents_def
        Inventory_fold_applyEvent Inventory_new_def)
  have i: "inv_id s = ident"
    by (simp add: s Inventory_applyEvent_id Inventory_fromEvents_def Inventory_fold_id
        Inventory_new_def)
  from assms(1) have "int (length evs) \<noteq> 0" by simp
  with u v i assms(2) show ?thesis
    by (simp add: InventoryRepository_save_def Inventory_getUncommittedEvents_def
        saveEvents_unfold Let_def)
qed

theorem replayed_inventory_cannot_be_saved_witness:
  "(let created = InventoryItemCreated ''i1'' ''p1'' ''sku1'' 5 2 0 0;
        tbl = [\<lparr>se_id = 4, se_aggregateId = ''i1'', se_eventType = eventType created,
                se_eventData = data created, se_metadata = (0, 1), se_version = 1,
                se_timestamp = 0\<rparr>];
        db = \<lparr>pg_now = 3, pg_uuid = (\<lambda>i. 7 + i), pg_insert_fails = (\<lambda>i. False)\<rparr>
    in [created] \<noteq> [] \<and> currentVersion ''i1'' tbl = 1 \<and>
       (\<exists>s. reserveStock ''o1'' 2 9 2 (Inventory_fromEvents ''i1'' [created] 1) = Inr s \<and>
            InventoryRepository_save db s tbl = (Inl (ConcurrencyConflict 0 1), s, tbl)))"
proof -
  let ?created = "InventoryItemCreated ''i1'' ''p1'' ''sku1'' 5 2 0 0"
  let ?tbl = "[\<lparr>se_id = 4, se_aggregateId = ''i1'', se_eventType = eventType ?created,
                se_eventData = data ?created, se_metadata = (0, 1), se_version = 1,
                se_timestamp = 0\<rparr>]"
  let ?db = "\<lparr>pg_now = 3, pg_uuid = (\<lambda>i. 7 + i), pg_insert_fails = (\<lambda>i. False)\<rparr>"
  have c: "currentVersion ''i1'' ?tbl = int (length [?created])"
    by (simp add: currentVersion_def)
  obtain s where s: "reserveStock ''o1'' 2 9 2 (Inventory_fromEvents ''i1'' [?created] 1) = Inr s"
    by (simp add: Inventory_fromEvents_def inv_eval)
  from replayed_inventory_cannot_be_saved [OF _ c s, of ?db]
  have "InventoryRepository_save ?db s ?tbl = (Inl (ConcurrencyConflict 0 1), s, ?tbl)"
    by simp
  with s c show ?thesis by (auto simp: Let_def)
qed

text \<open>
  \<open>EventSourcedProductRepository.save\<close> passes the product's version as the expected
  version. For a product whose version is the persisted version plus the number of its
  uncommitted events, of which there is at least one, \<open>save\<close> fails with a concurrency
  conflict and changes neither the store nor the product.
\<close>

theorem product_save_expects_the_new_version:
  assumes "Product_getUncommittedEvents p \<noteq> []"
    and "prod_version p =
           currentVersion (prod_id p) tbl + int (length (Product_getUncommittedEvents p))"
  shows "ProductRepository_save db p tbl =
           (Inl (ConcurrencyConflict (prod_version p) (currentVersion (prod_id p) tbl)), p, tbl)"
  using assms by (simp add: ProductRepository_save_def saveEvents_unfold Let_def)

theorem product_save_expects_the_new_version_witness:
  "(let p = \<lparr>prod_id = ''p1'', prod_name = ''Lamp'', prod_description = ''Desk lamp'',
             prod_price = usd 10, prod_categoryId = ''c1'', prod_sku = ''S1'',
             prod_images = [], prod_attributes = [], prod_isActive = True,
             prod_stock = 0, prod_createdAt = 0, prod_updatedAt = 0,
             prod_discontinuedAt = None, prod_version = 1,
             prod_uncommittedEvents =
               [Event ''ProductCreated'' ''p1''
                  (ProductCreatedData ''Lamp'' ''Desk lamp'' 10 ''c1'' ''S1'' [] [] True) 0]\<rparr>;
        db = \<lparr>pg_now = 3, pg_uuid = (\<lambda>i. 7 + i), pg_insert_fails = (\<lambda>i. False)\<rparr>
    in Product_getUncommittedEvents p \<noteq> [] \<and>
       prod_version p = currentVersion (prod_id p) [] + int (length (Product_getUncommittedEvents p)) \<and>
       ProductRepository_save db p [] = (Inl (ConcurrencyConflict 1 0), p, []))"
  using product_save_expects_the_new_version
    [where tbl = "[]" and db = "\<lparr>pg_now = 3, pg_uuid = (\<lambda>i. 7 + i), pg_insert_fails = (\<lambda>i. False)\<rparr>"
       and p = "\<lparr>prod_id = ''p1'', prod_name = ''Lamp'', prod_description = ''Desk lamp'',
             prod_price = usd 10, prod_categoryId = ''c1'', prod_sku = ''S1'',
             prod_images = [], prod_attributes = [], prod_isActive = True,
             prod_stock = 0, prod_createdAt = 0, prod_updatedAt = 0,
             prod_discontinuedAt = None, prod_version = 1,
             prod_uncommittedEvents =
               [Event ''ProductCreated'' ''p1''
                  (ProductCreatedData ''Lamp'' ''Desk lamp'' 10 ''c1'' ''S1'' [] [] True) 0]\<rparr>"]
  by (simp add: Let_def Product_getUncommittedEvents_def currentVersion_def)

text \<open>\<open>getEvents\<close> returns the rows of the aggregate whose version is greater than
  \<open>fromVersion\<close>, in ascending order of version.\<close>

theorem getEvents_sorted:
  "sorted (map se_version (getEvents aid fromVersion tbl)) \<and>
   set (getEvents aid fromVersion tbl) =
     {r \<in> set tbl. se_aggregateId r = aid \<and> fromVersion < se_version r}"
  by (auto simp: getEvents_def)

end
